theory Spec2Isabelle
  imports Main "HOL-Library.Sublist"
begin

section \<open>LogParser: template extraction, normalisation and embedding\<close>

text \<open>
  A shallow embedding of \<^verbatim>\<open>src/log_parser.py\<close>. The program has four functions
  (\<^verbatim>\<open>extract_template_and_variables\<close>, \<^verbatim>\<open>extract_template_and_variables_fewshot\<close>,
  \<^verbatim>\<open>normalize_template\<close>, \<^verbatim>\<open>get_embedding\<close>) and a driver \<^verbatim>\<open>main\<close>. It talks to
  two remote services through the global \<^verbatim>\<open>client\<close> and decodes text with the
  standard library's \<^verbatim>\<open>json.loads\<close>. Neither the services nor the decoder are
  code of the program: they are parameters of the model. Every exception the
  program can meet is a value, and a function that can raise returns \<open>exn + 'a\<close>
  together with the state it leaves behind.
\<close>

subsection \<open>Python values\<close>

text \<open>
  A Python \<^verbatim>\<open>str\<close> is a sequence of code points; the model keeps the code points
  below 256, one \<^typ>\<open>char\<close> each. What \<^verbatim>\<open>json.loads\<close> returns is a \<^verbatim>\<open>dict\<close>,
  \<^verbatim>\<open>list\<close>, \<^verbatim>\<open>str\<close>, \<^verbatim>\<open>int\<close>, \<^verbatim>\<open>float\<close>, \<^verbatim>\<open>bool\<close> or \<^verbatim>\<open>None\<close>. The program
  does no arithmetic on floats, so their type is the parameter \<open>'f\<close>. A \<^verbatim>\<open>dict\<close>
  is an association list in insertion order; a key is looked up with
  \<^const>\<open>map_of\<close>.
\<close>

datatype 'f json =
    JNone
  | JBool bool
  | JInt int
  | JFloat 'f
  | JStr string
  | JList "'f json list"
  | JDict "(string \<times> 'f json) list"

text \<open>
  The exceptions that can occur: \<^verbatim>\<open>json.JSONDecodeError\<close> carries the text that
  \<^verbatim>\<open>str(e)\<close> gives; \<^verbatim>\<open>OpenAIError\<close> stands for whatever the service client raises
  (time-out, connection, authentication, rate limit); \<open>OtherError\<close> for any other
  exception a collaborator raises (\<^verbatim>\<open>RecursionError\<close> in the decoder, for one).
\<close>

datatype exn =
    JSONDecodeError string
  | OpenAIError string
  | IndexError
  | AttributeError
  | TypeError
  | KeyError
  | OtherError string

subsection \<open>\<^verbatim>\<open>str.strip\<close>\<close>

text \<open>\<^verbatim>\<open>str.isspace\<close> on one code point below 256.\<close>

definition isspace :: "char \<Rightarrow> bool" where
  "isspace c = (of_char c \<in> {9, 10, 11, 12, 13, 28, 29, 30, 31, 32, 133, 160 :: nat})"

text \<open>\<^verbatim>\<open>s.strip()\<close>: the white space at both ends is dropped.\<close>

definition strip :: "string \<Rightarrow> string" where
  "strip s = rev (dropWhile isspace (rev (dropWhile isspace s)))"

subsection \<open>\<^verbatim>\<open>re.sub\<close> on the fragment of patterns the program uses\<close>

text \<open>
  The pattern of \<^verbatim>\<open>normalize_template\<close> is \<^verbatim>\<open><[^>]+>\<close>: a literal, a negated
  character set under the greedy \<^verbatim>\<open>+\<close>, a literal. A pattern is a sequence of
  items, each one atom or an atom under \<^verbatim>\<open>+\<close>.
\<close>

datatype atom = Lit char | NotIn "char list"

datatype item = One atom | OneOrMore atom

type_synonym pattern = "item list"

fun atom_matches :: "atom \<Rightarrow> char \<Rightarrow> bool" where
  "atom_matches (Lit a) c = (c = a)"
| "atom_matches (NotIn cs) c = (c \<notin> set cs)"

text \<open>
  The backtracking matcher, anchored at the start of the text: the result is the
  text left after the match the engine finds first. \<^verbatim>\<open>+\<close> is greedy: it first
  tries to take one more character, and gives characters back only when the rest
  of the pattern fails.
\<close>

fun re_match :: "pattern \<Rightarrow> string \<Rightarrow> string option" where
  "re_match [] s = Some s"
| "re_match (One a # p) [] = None"
| "re_match (One a # p) (c # cs) = (if atom_matches a c then re_match p cs else None)"
| "re_match (OneOrMore a # p) [] = None"
| "re_match (OneOrMore a # p) (c # cs) =
     (if atom_matches a c
      then (case re_match (OneOrMore a # p) cs of
              Some r \<Rightarrow> Some r
            | None \<Rightarrow> re_match p cs)
      else None)"

text \<open>
  \<^verbatim>\<open>re.sub(pattern, repl, string)\<close> for a replacement without escapes: the text is
  scanned from the left; where the pattern matches, the match is replaced and the
  scan goes on behind it; where it does not, the character is kept. An empty match
  (only the empty pattern of this fragment has one) is replaced and the scan moves
  one character on.
\<close>

function re_sub :: "pattern \<Rightarrow> string \<Rightarrow> string \<Rightarrow> string" where
  "re_sub p repl s =
     (case re_match p s of
        None \<Rightarrow> (case s of [] \<Rightarrow> [] | c # cs \<Rightarrow> c # re_sub p repl cs)
      | Some rest \<Rightarrow>
          (if length rest < length s then repl @ re_sub p repl rest
           else (case s of [] \<Rightarrow> repl | c # cs \<Rightarrow> repl @ c # re_sub p repl cs)))"
  by pat_completeness auto
termination
  by (relation "measure (\<lambda>(p, repl, s). length s)") auto

declare re_sub.simps [simp del]

subsection \<open>\<^verbatim>\<open>normalize_template\<close>\<close>

text \<open>The pattern \<^verbatim>\<open>r"<[^>]+>"\<close>.\<close>

definition placeholder_pattern :: pattern where
  "placeholder_pattern = [One (Lit CHR ''<''), OneOrMore (NotIn ''>''), One (Lit CHR ''>'')]"

text \<open>\<^verbatim>\<open>return re.sub(r"<[^>]+>", "<*>", template.strip())\<close>\<close>

definition normalize_template :: "string \<Rightarrow> string" where
  "normalize_template template = re_sub placeholder_pattern ''<*>'' (strip template)"

subsection \<open>The normaliser as the specification words it\<close>

text \<open>
  The specification describes \<open>Normalize\<close> without a pattern engine: a placeholder
  is \<^verbatim>\<open><\<close>, one or more characters other than \<^verbatim>\<open>>\<close>, and the first \<^verbatim>\<open>>\<close> that
  follows. \<open>placeholder_rest s\<close> reads the text behind a \<^verbatim>\<open><\<close>: when a
  placeholder is completed there, it gives the text behind its \<^verbatim>\<open>>\<close>.
\<close>

definition placeholder_rest :: "string \<Rightarrow> string option" where
  "placeholder_rest s =
     (let body = takeWhile (\<lambda>c. c \<noteq> CHR ''>'') s;
          rest = dropWhile (\<lambda>c. c \<noteq> CHR ''>'') s
      in if body = [] \<or> rest = [] then None else Some (tl rest))"

text \<open>Left to right, every placeholder becomes \<^verbatim>\<open><*>\<close>, any other character stays.\<close>

function collapse_placeholders :: "string \<Rightarrow> string" where
  "collapse_placeholders [] = []"
| "collapse_placeholders (c # cs) =
     (if c = CHR ''<''
      then (case placeholder_rest cs of
              Some rest \<Rightarrow> ''<*>'' @ collapse_placeholders rest
            | None \<Rightarrow> c # collapse_placeholders cs)
      else c # collapse_placeholders cs)"
  by pat_completeness auto
termination
proof (relation "measure length")
  fix c :: char and cs rest :: string
  assume "placeholder_rest cs = Some rest"
  then have "rest = tl (dropWhile (\<lambda>c. c \<noteq> CHR ''>'') cs)"
    by (simp add: placeholder_rest_def Let_def split: if_splits)
  moreover have "length (dropWhile (\<lambda>c. c \<noteq> CHR ''>'') cs) \<le> length cs"
    by (rule length_dropWhile_le)
  ultimately show "(rest, c # cs) \<in> measure length"
    by simp
qed auto

definition Normalize :: "string \<Rightarrow> string" where
  "Normalize t = collapse_placeholders (strip t)"

text \<open>Whether a text holds a placeholder anywhere.\<close>

fun has_placeholder :: "string \<Rightarrow> bool" where
  "has_placeholder [] = False"
| "has_placeholder (c # cs) =
     ((c = CHR ''<'' \<and> placeholder_rest cs \<noteq> None) \<or> has_placeholder cs)"

subsection \<open>The remote services and the state of a run\<close>

text \<open>
  What the service client returns, as far as the program reads it:
  \<^verbatim>\<open>response.choices[0].message.content\<close> of a chat completion (the content may be
  \<^verbatim>\<open>None\<close>) and \<^verbatim>\<open>response.data[0].embedding\<close> of an embedding response.
\<close>

record chat_message =
  content :: "string option"

record choice =
  message :: chat_message

record chat_completion =
  choices :: "choice list"

record 'f embedding_item =
  embedding :: "'f list"

record 'f create_embedding_response =
  data :: "'f embedding_item list"

text \<open>
  The global \<^verbatim>\<open>client\<close>. A call takes the keyword arguments the program passes
  (\<^verbatim>\<open>model\<close>, \<^verbatim>\<open>temperature\<close>, \<^verbatim>\<open>messages\<close> as pairs of role and content; \<^verbatim>\<open>model\<close>,
  \<^verbatim>\<open>input\<close>) and the state \<open>'w\<close> of the world outside; it raises or returns, and
  leaves a new state of the world, so two calls with the same arguments may differ.
\<close>

record ('f, 'w) client =
  chat_completions_create ::
    "string \<Rightarrow> int \<Rightarrow> (string \<times> string) list \<Rightarrow> 'w \<Rightarrow> (exn + chat_completion) \<times> 'w"
  embeddings_create ::
    "string \<Rightarrow> string list \<Rightarrow> 'w \<Rightarrow> (exn + 'f create_embedding_response) \<times> 'w"

text \<open>
  What the program writes to standard output, one event for each \<^verbatim>\<open>print\<close> with
  the value it shows, and the state of a run: the output so far and the world.
\<close>

datatype 'f event =
    Processing string
  | RawModelOutput string
  | ParsedResult "'f json"
  | EmbeddingLength nat

record ('f, 'w) state =
  stdout :: "'f event list"
  remote :: 'w

definition print :: "'f event \<Rightarrow> ('f, 'w) state \<Rightarrow> ('f, 'w) state" where
  "print e s = s\<lparr>stdout := stdout s @ [e]\<rparr>"

subsection \<open>The prompts\<close>

definition quoted :: "string \<Rightarrow> string" where
  "quoted s = CHR 0x22 # s @ [CHR 0x22]"

text \<open>The f-string of \<^verbatim>\<open>extract_template_and_variables\<close>.\<close>

definition zero_shot_prompt :: "string \<Rightarrow> string" where
  "zero_shot_prompt log_line =
     ''\<newline>'' @
     ''    You are a log parser. For the given log line:\<newline>'' @
     ''    1. Identify a generalized log template by replacing variable parts (timestamp, usernames, IPs, IDs, numbers, etc.) with clearly typed placeholders like <TIMESTAMP>, <USERNAME>, <IP_ADDRESS>.\<newline>'' @
     ''    2. Extract the values of those variables in a JSON dictionary.\<newline>'' @
     ''    3. Output the JSON object with two fields: '' @ quoted ''template'' @ '' and '' @
       quoted ''variables'' @ ''.\<newline>'' @
     ''\<newline>'' @
     ''    Log Line: '' @ log_line @ ''\<newline>'' @
     ''    ''"

text \<open>The f-string of \<^verbatim>\<open>extract_template_and_variables_fewshot\<close>.\<close>

definition few_shot_prompt :: "string \<Rightarrow> string \<Rightarrow> string" where
  "few_shot_prompt log_line few_shot_examples =
     ''\<newline>'' @
     ''    You are a log parser. For the given log line:\<newline>'' @
     ''    1. Identify a generalized log template by replacing variable parts (timestamp, usernames, IPs, IDs, numbers, etc.) with clearly typed placeholders like <TIMESTAMP>, <USERNAME>, <IP_ADDRESS>.\<newline>'' @
     ''    2. Extract the values of those variables in a JSON dictionary.\<newline>'' @
     ''    3. Output the JSON object with two fields: '' @ quoted ''template'' @ '', '' @
       quoted ''variables'' @ '', '' @ quoted ''original_log'' @ ''.\<newline>'' @
     ''\<newline>'' @
     ''    If possible, make use of the examples to improve accuracy:\<newline>'' @
     ''\<newline>'' @
     ''    '' @ few_shot_examples @ ''\<newline>'' @
     ''\<newline>'' @
     ''    Now process the following:\<newline>'' @
     ''\<newline>'' @
     ''    Log Line: '' @ log_line @ ''\<newline>'' @
     ''    ''"

definition FEW_SHOT_EXAMPLES :: string where
  "FEW_SHOT_EXAMPLES =
     ''\<newline>'' @
     ''Example 1:\<newline>'' @
     ''Log Line:\<newline>'' @
     ''2023-01-01 10:23:45 User alice logged in from 192.168.1.1\<newline>'' @
     ''{'' @ quoted ''template'' @ '': '' @
       quoted ''<TIMESTAMP> User <USERNAME> logged in from <IP_ADDRESS>'' @ '',\<newline>'' @
     '' '' @ quoted ''variables'' @ '': {\<newline>'' @
     ''   '' @ quoted ''TIMESTAMP'' @ '': '' @ quoted ''2023-01-01 10:23:45'' @ '',\<newline>'' @
     ''   '' @ quoted ''USERNAME'' @ '': '' @ quoted ''alice'' @ '',\<newline>'' @
     ''   '' @ quoted ''IP_ADDRESS'' @ '': '' @ quoted ''192.168.1.1'' @ ''\<newline>'' @
     '' }}\<newline>'' @
     ''\<newline>'' @
     ''Example 2:\<newline>'' @
     ''Log Line:\<newline>'' @
     ''Error: failed to connect to database db42 on host 10.0.0.2\<newline>'' @
     ''{'' @ quoted ''template'' @ '': '' @
       quoted ''Error: failed to connect to database <DB_NAME> on host <IP_ADDRESS>'' @ '',\<newline>'' @
     '' '' @ quoted ''variables'' @ '': {\<newline>'' @
     ''   '' @ quoted ''DB_NAME'' @ '': '' @ quoted ''db42'' @ '',\<newline>'' @
     ''   '' @ quoted ''IP_ADDRESS'' @ '': '' @ quoted ''10.0.0.2'' @ ''\<newline>'' @
     '' }}\<newline>''"

subsection \<open>The two extractors\<close>

text \<open>
  \<^verbatim>\<open>extract_template_and_variables\<close>: the call of the completion service is outside
  the \<^verbatim>\<open>try\<close>, so is \<^verbatim>\<open>response.choices[0].message.content.strip()\<close>
  (\<^verbatim>\<open>IndexError\<close> on no choice, \<^verbatim>\<open>AttributeError\<close> on a content of \<^verbatim>\<open>None\<close>). The
  \<^verbatim>\<open>try\<close> holds \<^verbatim>\<open>json.loads(content)\<close> alone and its \<^verbatim>\<open>except\<close> catches
  \<^verbatim>\<open>json.JSONDecodeError\<close> alone. The decoder \<open>loads\<close> is a parameter.
\<close>

definition extract_template_and_variables ::
  "('f, 'w) client \<Rightarrow> (string \<Rightarrow> exn + 'f json) \<Rightarrow> string \<Rightarrow> ('f, 'w) state
     \<Rightarrow> (exn + 'f json) \<times> ('f, 'w) state" where
  "extract_template_and_variables client loads log_line s =
     (let prompt = zero_shot_prompt log_line in
      case chat_completions_create client ''gpt-4'' 0 [(''user'', prompt)] (remote s) of
        (Inl e, w) \<Rightarrow> (Inl e, s\<lparr>remote := w\<rparr>)
      | (Inr response, w) \<Rightarrow>
          (let s1 = s\<lparr>remote := w\<rparr> in
           case choices response of
             [] \<Rightarrow> (Inl IndexError, s1)
           | c # _ \<Rightarrow>
               (case content (message c) of
                  None \<Rightarrow> (Inl AttributeError, s1)
                | Some text \<Rightarrow>
                    (let content' = strip text in
                     case loads content' of
                       Inr v \<Rightarrow> (Inr v, s1)
                     | Inl (JSONDecodeError msg) \<Rightarrow>
                         (Inr (JDict [(''template'', JStr ''<PARSE_ERROR>''),
                                      (''variables'', JDict []),
                                      (''error'', JStr msg)]), s1)
                     | Inl e \<Rightarrow> (Inl e, s1)))))"

text \<open>
  \<^verbatim>\<open>extract_template_and_variables_fewshot\<close>: the same steps with the few-shot
  prompt, and the stripped content is printed before it is decoded.
\<close>

definition extract_template_and_variables_fewshot ::
  "('f, 'w) client \<Rightarrow> (string \<Rightarrow> exn + 'f json) \<Rightarrow> string \<Rightarrow> string \<Rightarrow> ('f, 'w) state
     \<Rightarrow> (exn + 'f json) \<times> ('f, 'w) state" where
  "extract_template_and_variables_fewshot client loads log_line few_shot_examples s =
     (let prompt = few_shot_prompt log_line few_shot_examples in
      case chat_completions_create client ''gpt-4'' 0 [(''user'', prompt)] (remote s) of
        (Inl e, w) \<Rightarrow> (Inl e, s\<lparr>remote := w\<rparr>)
      | (Inr response, w) \<Rightarrow>
          (let s1 = s\<lparr>remote := w\<rparr> in
           case choices response of
             [] \<Rightarrow> (Inl IndexError, s1)
           | c # _ \<Rightarrow>
               (case content (message c) of
                  None \<Rightarrow> (Inl AttributeError, s1)
                | Some text \<Rightarrow>
                    (let content' = strip text;
                         s2 = print (RawModelOutput content') s1 in
                     case loads content' of
                       Inr v \<Rightarrow> (Inr v, s2)
                     | Inl (JSONDecodeError msg) \<Rightarrow>
                         (Inr (JDict [(''template'', JStr ''<PARSE_ERROR>''),
                                      (''variables'', JDict []),
                                      (''error'', JStr msg)]), s2)
                     | Inl e \<Rightarrow> (Inl e, s2)))))"

subsection \<open>\<^verbatim>\<open>get_embedding\<close>\<close>

text \<open>
  \<^verbatim>\<open>response = client.embeddings.create(model=..., input=[text])\<close>, then
  \<^verbatim>\<open>return response.data[0].embedding\<close>; nothing is caught.
\<close>

definition get_embedding ::
  "('f, 'w) client \<Rightarrow> string \<Rightarrow> ('f, 'w) state \<Rightarrow> (exn + 'f list) \<times> ('f, 'w) state" where
  "get_embedding client text s =
     (case embeddings_create client ''text-embedding-3-small'' [text] (remote s) of
        (Inl e, w) \<Rightarrow> (Inl e, s\<lparr>remote := w\<rparr>)
      | (Inr response, w) \<Rightarrow>
          (case data response of
             [] \<Rightarrow> (Inl IndexError, s\<lparr>remote := w\<rparr>)
           | d # _ \<Rightarrow> (Inr (embedding d), s\<lparr>remote := w\<rparr>)))"

subsection \<open>\<^verbatim>\<open>main\<close>\<close>

text \<open>
  \<^verbatim>\<open>key in result\<close> for a \<^verbatim>\<open>str\<close> key: the keys of a \<^verbatim>\<open>dict\<close>, the elements of a
  \<^verbatim>\<open>list\<close>, the substrings of a \<^verbatim>\<open>str\<close>; \<^verbatim>\<open>TypeError\<close> on a number, a \<^verbatim>\<open>bool\<close> or
  \<^verbatim>\<open>None\<close>.
\<close>

fun py_contains :: "'f json \<Rightarrow> string \<Rightarrow> exn + bool" where
  "py_contains (JDict kvs) k = Inr (k \<in> set (map fst kvs))"
| "py_contains (JList xs) k = Inr (JStr k \<in> set xs)"
| "py_contains (JStr t) k = Inr (sublist k t)"
| "py_contains _ k = Inl TypeError"

text \<open>\<^verbatim>\<open>result[key]\<close> for a \<^verbatim>\<open>str\<close> key: only a \<^verbatim>\<open>dict\<close> takes one.\<close>

fun py_getitem :: "'f json \<Rightarrow> string \<Rightarrow> exn + 'f json" where
  "py_getitem (JDict kvs) k = (case map_of kvs k of None \<Rightarrow> Inl KeyError | Some v \<Rightarrow> Inr v)"
| "py_getitem _ k = Inl TypeError"

text \<open>
  The body of the \<^verbatim>\<open>for\<close> loop of \<^verbatim>\<open>main\<close>. \<^verbatim>\<open>normalize_template\<close> calls \<^verbatim>\<open>.strip()\<close>
  on its argument, which only a \<^verbatim>\<open>str\<close> has.
\<close>

definition main_body ::
  "('f, 'w) client \<Rightarrow> (string \<Rightarrow> exn + 'f json) \<Rightarrow> string \<Rightarrow> ('f, 'w) state
     \<Rightarrow> (exn + unit) \<times> ('f, 'w) state" where
  "main_body client loads log s =
     (let s1 = print (Processing log) s in
      case extract_template_and_variables_fewshot client loads log FEW_SHOT_EXAMPLES s1 of
        (Inl e, s2) \<Rightarrow> (Inl e, s2)
      | (Inr result, s2) \<Rightarrow>
          (let s3 = print (ParsedResult result) s2 in
           case py_contains result ''template'' of
             Inl e \<Rightarrow> (Inl e, s3)
           | Inr b \<Rightarrow>
               if b then
                 (case py_getitem result ''template'' of
                    Inl e \<Rightarrow> (Inl e, s3)
                  | Inr t \<Rightarrow>
                      (case t of
                         JStr template \<Rightarrow>
                           (case get_embedding client (normalize_template template) s3 of
                              (Inl e, s4) \<Rightarrow> (Inl e, s4)
                            | (Inr vec, s4) \<Rightarrow>
                                (Inr (), print (EmbeddingLength (length vec)) s4))
                       | _ \<Rightarrow> (Inl AttributeError, s3)))
               else (Inr (), s3)))"

text \<open>The loop: an exception in one iteration ends it.\<close>

fun main_loop ::
  "('f, 'w) client \<Rightarrow> (string \<Rightarrow> exn + 'f json) \<Rightarrow> string list \<Rightarrow> ('f, 'w) state
     \<Rightarrow> (exn + unit) \<times> ('f, 'w) state" where
  "main_loop client loads [] s = (Inr (), s)"
| "main_loop client loads (log # rest) s =
     (case main_body client loads log s of
        (Inl e, s') \<Rightarrow> (Inl e, s')
      | (Inr _, s') \<Rightarrow> main_loop client loads rest s')"

text \<open>The sample logs of \<^verbatim>\<open>main\<close>.\<close>

definition logs :: "string list" where
  "logs =
     [''2024-03-12 12:43:22,934 - user john_doe logged in from 192.168.1.1'',
      ''081109 203615 148 INFO dfs.DataNode$PacketResponder: PacketResponder 1 for block blk_38865049064139660 terminating'',
      ''BLOCK* NameSystem.addStoredBlock: blockMap updated: 10.251.73.220:50010 is added to blk_7128370237687728475 size 67108864'',
      ''Jun 14 15:16:01 combo sshd(pam_unix)[19939]: authentication failure; logname= uid=0 euid=0 tty=NODEVssh ruser= rhost=218.188.2.4'',
      ''17/06/09 20:10:40 INFO executor.CoarseGrainedExecutorBackend: Registered signal handlers for [TERM, HUP, INT]'',
      ''17/06/09 20:10:40 INFO spark.SecurityManager: Changing view acls to: yarn,curi'',
      ''Error: failed to connect to database worker64 on host 10.1.4.2'']"

definition main ::
  "('f, 'w) client \<Rightarrow> (string \<Rightarrow> exn + 'f json) \<Rightarrow> ('f, 'w) state
     \<Rightarrow> (exn + unit) \<times> ('f, 'w) state" where
  "main client loads s = main_loop client loads logs s"

text \<open>What a run has printed: the lines it started on and the results it showed.\<close>

fun processed :: "'f event list \<Rightarrow> string list" where
  "processed [] = []"
| "processed (Processing l # es) = l # processed es"
| "processed (e # es) = processed es"

fun parsed_results :: "'f event list \<Rightarrow> 'f json list" where
  "parsed_results [] = []"
| "parsed_results (ParsedResult r # es) = r # parsed_results es"
| "parsed_results (e # es) = parsed_results es"

fun embedding_lengths :: "'f event list \<Rightarrow> nat list" where
  "embedding_lengths [] = []"
| "embedding_lengths (EmbeddingLength n # es) = n # embedding_lengths es"
| "embedding_lengths (e # es) = embedding_lengths es"

text \<open>
  The results a run has shown, each with the line it belongs to: the line announced by the
  \<^verbatim>\<open>print\<close> that opens the iteration, the raw output and the parsed result printed next.
\<close>

fun line_results :: "'f event list \<Rightarrow> (string \<times> 'f json) list" where
  "line_results (Processing l # RawModelOutput c # ParsedResult r # es) = (l, r) # line_results es"
| "line_results (e # es) = line_results es"
| "line_results [] = []"

subsection \<open>Collaborators for concrete runs\<close>

text \<open>
  A scripted world: the replies the two services will give, in order, and the
  inputs the embedding service has been called with. A service with no reply left
  raises. Floats are integers here.
\<close>

record script =
  chat_replies :: "(exn + chat_completion) list"
  embedding_replies :: "(exn + int create_embedding_response) list"
  embedding_inputs :: "string list list"

definition scripted_client :: "(int, script) client" where
  "scripted_client =
     \<lparr>chat_completions_create = (\<lambda>model temperature messages w.
        case chat_replies w of
          [] \<Rightarrow> (Inl (OpenAIError ''Connection error.''), w)
        | r # rs \<Rightarrow> (r, w\<lparr>chat_replies := rs\<rparr>)),
      embeddings_create = (\<lambda>model input w.
        case embedding_replies w of
          [] \<Rightarrow> (Inl (OpenAIError ''Connection error.''), w\<lparr>embedding_inputs := embedding_inputs w @ [input]\<rparr>)
        | r # rs \<Rightarrow>
            (r, w\<lparr>embedding_replies := rs, embedding_inputs := embedding_inputs w @ [input]\<rparr>))\<rparr>"

definition response_with :: "string \<Rightarrow> chat_completion" where
  "response_with text = \<lparr>choices = [\<lparr>message = \<lparr>content = Some text\<rparr>\<rparr>]\<rparr>"

definition reply :: "string \<Rightarrow> exn + chat_completion" where
  "reply text = Inr (response_with text)"

definition vectors :: "int list list \<Rightarrow> exn + int create_embedding_response" where
  "vectors vs = Inr \<lparr>data = map (\<lambda>v. \<lparr>embedding = v\<rparr>) vs\<rparr>"

definition start :: "(exn + chat_completion) list \<Rightarrow> (exn + int create_embedding_response) list
    \<Rightarrow> (int, script) state" where
  "start chat emb =
     \<lparr>stdout = [], remote = \<lparr>chat_replies = chat, embedding_replies = emb, embedding_inputs = []\<rparr>\<rparr>"

text \<open>
  A decoder given by a table of texts it decodes; any other text is a decode
  failure with the message \<^verbatim>\<open>json.loads\<close> gives on text that starts no value.
\<close>

definition table_loads :: "(string \<times> int json) list \<Rightarrow> string \<Rightarrow> exn + int json" where
  "table_loads table text =
     (case map_of table text of
        Some v \<Rightarrow> Inr v
      | None \<Rightarrow> Inl (JSONDecodeError ''Expecting value: line 1 column 1 (char 0)''))"

text \<open>
  Four replies of the completion service and what \<^verbatim>\<open>json.loads\<close> makes of them:
  a text that is no JSON, an object with a field the program does not know and no
  \<^verbatim>\<open>variables\<close>, an object with exactly \<^verbatim>\<open>template\<close> and \<^verbatim>\<open>variables\<close>, an object
  with no \<^verbatim>\<open>template\<close>.
\<close>

definition apology_text :: string where
  "apology_text = ''Sorry, I cannot parse this log line.''"

definition apology_raw :: string where
  "apology_raw = ''  '' @ apology_text @ ''\<newline>''"

definition unknown_field_text :: string where
  "unknown_field_text =
     ''{'' @ quoted ''template'' @ '': '' @ quoted ''job <ID> done'' @ '', '' @
       quoted ''confidence'' @ '': 1}''"

definition unknown_field_value :: "int json" where
  "unknown_field_value = JDict [(''template'', JStr ''job <ID> done''), (''confidence'', JInt 1)]"

definition two_field_text :: string where
  "two_field_text =
     ''{'' @ quoted ''template'' @ '': '' @ quoted ''job <ID> done'' @ '', '' @
       quoted ''variables'' @ '': {'' @ quoted ''ID'' @ '': '' @ quoted ''42'' @ ''}}''"

definition two_field_value :: "int json" where
  "two_field_value =
     JDict [(''template'', JStr ''job <ID> done''), (''variables'', JDict [(''ID'', JStr ''42'')])]"

definition no_template_text :: string where
  "no_template_text = ''{'' @ quoted ''message'' @ '': '' @ quoted ''no log line was given'' @ ''}''"

definition no_template_value :: "int json" where
  "no_template_value = JDict [(''message'', JStr ''no log line was given'')]"

definition sample_loads :: "string \<Rightarrow> exn + int json" where
  "sample_loads =
     table_loads [(unknown_field_text, unknown_field_value), (two_field_text, two_field_value),
                  (no_template_text, no_template_value)]"

text \<open>
  A decoder with the nesting limit of \<^verbatim>\<open>json.loads\<close>: on a text of 1000 opening brackets
  it raises \<^verbatim>\<open>RecursionError\<close>, which is no \<^verbatim>\<open>JSONDecodeError\<close>; on any other text it is
  the decoder above.
\<close>

definition deep_text :: string where
  "deep_text = replicate 1000 CHR ''[''"

definition limited_loads :: "string \<Rightarrow> exn + int json" where
  "limited_loads text =
     (if text = deep_text
      then Inl (OtherError ''RecursionError: maximum recursion depth exceeded while decoding a JSON array from a unicode string'')
      else sample_loads text)"

section \<open>The placeholder pattern and the normalisation of templates\<close>

lemma placeholder_rest_Nil [simp]: "placeholder_rest [] = None"
  by (simp add: placeholder_rest_def)

lemma placeholder_rest_gt [simp]: "placeholder_rest (CHR ''>'' # cs) = None"
  by (simp add: placeholder_rest_def)

lemma placeholder_rest_single [simp]: "placeholder_rest [c] = None"
  by (simp add: placeholder_rest_def)

lemma placeholder_rest_close [simp]:
  "c \<noteq> CHR ''>'' \<Longrightarrow> placeholder_rest (c # CHR ''>'' # ds) = Some ds"
  by (simp add: placeholder_rest_def)

lemma placeholder_rest_step [simp]:
  "c \<noteq> CHR ''>'' \<Longrightarrow> d \<noteq> CHR ''>'' \<Longrightarrow> placeholder_rest (c # d # ds) = placeholder_rest (d # ds)"
  by (simp add: placeholder_rest_def Let_def)

lemma re_match_gt: "re_match [One (Lit CHR ''>'')] cs =
   (case cs of [] \<Rightarrow> None | d # ds \<Rightarrow> if d = CHR ''>'' then Some ds else None)"
  by (cases cs) auto

lemma re_match_body:
  "re_match [OneOrMore (NotIn ''>''), One (Lit CHR ''>'')] cs = placeholder_rest cs"
proof (induction cs)
  case Nil
  show ?case by simp
next
  case (Cons c cs)
  show ?case
  proof (cases "c = CHR ''>''")
    case True
    then show ?thesis by simp
  next
    case False
    show ?thesis
    proof (cases cs)
      case Nil
      with False show ?thesis by simp
    next
      case (Cons d ds)
      show ?thesis
      proof (cases "d = CHR ''>''")
        case True
        with False Cons show ?thesis by simp
      next
        case dgt: False
        with False Cons Cons.IH show ?thesis
          by (simp split: option.splits)
      qed
    qed
  qed
qed

lemma re_match_placeholder:
  "re_match placeholder_pattern s =
     (case s of [] \<Rightarrow> None | c # cs \<Rightarrow> if c = CHR ''<'' then placeholder_rest cs else None)"
  by (cases s) (simp_all add: placeholder_pattern_def re_match_body)

lemma placeholder_rest_shorter: "placeholder_rest cs = Some rest \<Longrightarrow> length rest < length cs"
proof -
  assume "placeholder_rest cs = Some rest"
  then have r: "rest = tl (dropWhile (\<lambda>c. c \<noteq> CHR ''>'') cs)" and ne: "dropWhile (\<lambda>c. c \<noteq> CHR ''>'') cs \<noteq> []"
    by (simp_all add: placeholder_rest_def Let_def split: if_splits)
  have "length (dropWhile (\<lambda>c. c \<noteq> CHR ''>'') cs) \<le> length cs"
    by (rule length_dropWhile_le)
  with r ne show ?thesis by (cases "dropWhile (\<lambda>c. c \<noteq> CHR ''>'') cs") auto
qed

lemma re_sub_collapse: "re_sub placeholder_pattern ''<*>'' s = collapse_placeholders s"
proof (induction s rule: collapse_placeholders.induct)
  case 1
  show ?case by (subst re_sub.simps) (simp add: re_match_placeholder)
next
  case (2 c cs)
  show ?case
  proof (cases "c = CHR ''<''")
    case False
    with 2 show ?thesis by (subst re_sub.simps) (simp add: re_match_placeholder)
  next
    case True
    show ?thesis
    proof (cases "placeholder_rest cs")
      case None
      with True 2 show ?thesis by (subst re_sub.simps) (simp add: re_match_placeholder)
    next
      case (Some rest)
      with True 2 placeholder_rest_shorter[OF Some] show ?thesis
        by (subst re_sub.simps) (simp add: re_match_placeholder)
    qed
  qed
qed

lemma normalize_template_Normalize: "normalize_template t = Normalize t"
  by (simp add: normalize_template_def Normalize_def re_sub_collapse)

lemma collapse_no_placeholder: "\<not> has_placeholder s \<Longrightarrow> collapse_placeholders s = s"
  by (induction s rule: collapse_placeholders.induct) auto


lemma placeholder_rest_no_gt: "CHR ''>'' \<notin> set cs \<Longrightarrow> placeholder_rest cs = None"
  by (simp add: placeholder_rest_def Let_def)

lemma collapse_no_gt: "CHR ''>'' \<notin> set s \<Longrightarrow> collapse_placeholders s = s"
  by (induction s rule: collapse_placeholders.induct) (auto simp: placeholder_rest_no_gt)

lemma placeholder_rest_None_cases:
  assumes "placeholder_rest cs = None"
  shows "cs = [] \<or> (\<exists>xs. cs = CHR ''>'' # xs) \<or> CHR ''>'' \<notin> set cs"
proof (cases cs)
  case Nil
  then show ?thesis by simp
next
  case (Cons c xs)
  show ?thesis
  proof (cases "c = CHR ''>''")
    case True
    with Cons show ?thesis by simp
  next
    case False
    with Cons have "takeWhile (\<lambda>c. c \<noteq> CHR ''>'') cs \<noteq> []" by simp
    with assms have "dropWhile (\<lambda>c. c \<noteq> CHR ''>'') cs = []"
      by (simp add: placeholder_rest_def Let_def split: if_splits)
    then show ?thesis by (auto simp: dropWhile_eq_Nil_conv)
  qed
qed

lemma placeholder_rest_collapse_None:
  assumes "placeholder_rest cs = None"
  shows "placeholder_rest (collapse_placeholders cs) = None"
  using placeholder_rest_None_cases[OF assms]
  by (auto simp: collapse_no_gt assms)

lemma placeholder_rest_star: "placeholder_rest (CHR ''*'' # CHR ''>'' # xs) = Some xs"
  by simp

lemma collapse_idem: "collapse_placeholders (collapse_placeholders s) = collapse_placeholders s"
proof (induction s rule: collapse_placeholders.induct)
  case 1
  show ?case by simp
next
  case (2 c cs)
  show ?case
  proof (cases "c = CHR ''<''")
    case False
    with 2 show ?thesis by simp
  next
    case True
    show ?thesis
    proof (cases "placeholder_rest cs")
      case None
      with True 2 show ?thesis by (simp add: placeholder_rest_collapse_None)
    next
      case (Some rest)
      with True 2 show ?thesis by (simp add: placeholder_rest_star)
    qed
  qed
qed

lemma collapse_hd: "s \<noteq> [] \<Longrightarrow> collapse_placeholders s \<noteq> [] \<and> hd (collapse_placeholders s) = hd s"
  by (cases s) (auto split: option.splits)

lemma placeholder_rest_last:
  "placeholder_rest cs = Some rest \<Longrightarrow> last (c # cs) = (if rest = [] then CHR ''>'' else last rest)"
proof (induction cs arbitrary: c)
  case Nil
  then show ?case by simp
next
  case (Cons d ds)
  show ?case
  proof (cases ds)
    case Nil
    with Cons.prems show ?thesis by simp
  next
    case (Cons e es)
    show ?thesis
    proof (cases "d = CHR ''>''")
      case True
      with Cons.prems show ?thesis by simp
    next
      case dn: False
      show ?thesis
      proof (cases "e = CHR ''>''")
        case True
        with dn Cons Cons.prems show ?thesis by auto
      next
        case False
        with dn Cons Cons.prems have "placeholder_rest ds = Some rest" by simp
        from Cons.IH[OF this, of d] Cons show ?thesis by simp
      qed
    qed
  qed
qed

lemma collapse_last: "s \<noteq> [] \<Longrightarrow> last (collapse_placeholders s) = last s"
proof (induction s rule: collapse_placeholders.induct)
  case 1
  then show ?case by simp
next
  case (2 c cs)
  show ?case
  proof (cases "c = CHR ''<'' \<and> placeholder_rest cs \<noteq> None")
    case True
    then obtain rest where r: "placeholder_rest cs = Some rest" by auto
    show ?thesis
    proof (cases "rest = []")
      case True
      with r \<open>c = CHR ''<'' \<and> _\<close> placeholder_rest_last[OF r, of c] show ?thesis by simp
    next
      case False
      with r True 2 placeholder_rest_last[OF r, of c] collapse_hd[OF False] show ?thesis by simp
    qed
  next
    case False
    then have eq: "collapse_placeholders (c # cs) = c # collapse_placeholders cs" by auto
    show ?thesis
    proof (cases "cs = []")
      case True
      then show ?thesis by simp
    next
      case ne: False
      have "last (collapse_placeholders cs) = last cs"
        using False 2 ne by (auto split: if_splits)
      with ne collapse_hd[OF ne] eq show ?thesis by simp
    qed
  qed
qed

lemma dropWhile_hd_id: "xs \<noteq> [] \<Longrightarrow> \<not> P (hd xs) \<Longrightarrow> dropWhile P xs = xs"
  by (cases xs) simp_all

lemma strip_Nil [simp]: "strip [] = []"
  by (simp add: strip_def)

lemma strip_fixed:
  assumes "s \<noteq> []" and "\<not> isspace (hd s)" and "\<not> isspace (last s)"
  shows "strip s = s"
proof -
  have d: "dropWhile isspace s = s"
    using assms(1,2) by (rule dropWhile_hd_id)
  have "rev s \<noteq> []" and "\<not> isspace (hd (rev s))"
    using assms(1,3) by (simp_all add: hd_rev)
  then have "dropWhile isspace (rev s) = rev s"
    by (rule dropWhile_hd_id)
  with d show ?thesis by (simp add: strip_def)
qed

lemma strip_ends:
  assumes ne: "strip s \<noteq> []"
  shows "\<not> isspace (hd (strip s)) \<and> \<not> isspace (last (strip s))"
proof -
  let ?d = "dropWhile isspace s"
  let ?r = "dropWhile isspace (rev ?d)"
  from ne have rne: "?r \<noteq> []" by (simp add: strip_def)
  then have "\<not> isspace (hd ?r)" by (rule hd_dropWhile)
  with rne have l: "\<not> isspace (last (strip s))" by (simp add: strip_def last_rev)
  have dne: "?d \<noteq> []"
  proof
    assume e: "?d = []"
    have "?r = dropWhile isspace (rev [])" by (simp only: e)
    then have "?r = []" by simp
    with rne show False by (simp only: not_True_eq_False)
  qed
  then have hd: "\<not> isspace (hd ?d)" by (rule hd_dropWhile)
  have "rev ?d = takeWhile isspace (rev ?d) @ ?r"
    by simp
  then have "rev (rev ?d) = rev (takeWhile isspace (rev ?d) @ ?r)"
    by (rule arg_cong)
  then have "?d = rev ?r @ rev (takeWhile isspace (rev ?d))"
    by (simp only: rev_rev_ident rev_append)
  with rne have "hd ?d = hd (rev ?r)"
    by (metis hd_append2 rev_is_Nil_conv)
  with hd have "\<not> isspace (hd (strip s))" by (simp add: strip_def)
  with l show ?thesis by simp
qed

lemma strip_collapse: "strip (collapse_placeholders (strip t)) = collapse_placeholders (strip t)"
proof (cases "strip t = []")
  case True
  then show ?thesis by simp
next
  case False
  from collapse_hd[OF False] collapse_last[OF False] strip_ends[OF False]
  show ?thesis by (intro strip_fixed) simp_all
qed

lemma placeholder_rest_Some_iff:
  "placeholder_rest cs = Some rest \<longleftrightarrow>
     (\<exists>body. cs = body @ CHR ''>'' # rest \<and> body \<noteq> [] \<and> CHR ''>'' \<notin> set body)"
proof
  assume h: "placeholder_rest cs = Some rest"
  let ?b = "takeWhile (\<lambda>c. c \<noteq> CHR ''>'') cs" and ?d = "dropWhile (\<lambda>c. c \<noteq> CHR ''>'') cs"
  from h have b: "?b \<noteq> []" and d: "?d \<noteq> []" and r: "rest = tl ?d"
    by (simp_all add: placeholder_rest_def Let_def split: if_splits)
  from d have "hd ?d = CHR ''>''" using hd_dropWhile[of "\<lambda>c. c \<noteq> CHR ''>''" cs] by simp
  with d r have "?d = CHR ''>'' # rest" by (cases ?d) simp_all
  then have "cs = ?b @ CHR ''>'' # rest" by (metis takeWhile_dropWhile_id)
  moreover have "CHR ''>'' \<notin> set ?b" using set_takeWhileD by fastforce
  ultimately show "\<exists>body. cs = body @ CHR ''>'' # rest \<and> body \<noteq> [] \<and> CHR ''>'' \<notin> set body"
    using b by blast
next
  assume "\<exists>body. cs = body @ CHR ''>'' # rest \<and> body \<noteq> [] \<and> CHR ''>'' \<notin> set body"
  then obtain body where cs: "cs = body @ CHR ''>'' # rest" and ne: "body \<noteq> []"
    and no: "CHR ''>'' \<notin> set body" by blast
  from no have "takeWhile (\<lambda>c. c \<noteq> CHR ''>'') cs = body"
    unfolding cs by (induction body) auto
  moreover from no have "dropWhile (\<lambda>c. c \<noteq> CHR ''>'') cs = CHR ''>'' # rest"
    unfolding cs by (induction body) auto
  ultimately show "placeholder_rest cs = Some rest"
    using ne by (simp add: placeholder_rest_def Let_def)
qed

lemma has_placeholder_iff:
  "has_placeholder s \<longleftrightarrow>
     (\<exists>pre body post. s = pre @ CHR ''<'' # body @ CHR ''>'' # post \<and> body \<noteq> [] \<and> CHR ''>'' \<notin> set body)"
proof (induction s)
  case Nil
  show ?case by simp
next
  case (Cons c cs)
  show ?case
  proof
    assume "has_placeholder (c # cs)"
    then consider (here) "c = CHR ''<''" "placeholder_rest cs \<noteq> None" | (later) "has_placeholder cs"
      by auto
    then show "\<exists>pre body post. c # cs = pre @ CHR ''<'' # body @ CHR ''>'' # post \<and> body \<noteq> [] \<and> CHR ''>'' \<notin> set body"
    proof cases
      case here
      then obtain rest where "placeholder_rest cs = Some rest" by auto
      then obtain body where "cs = body @ CHR ''>'' # rest" "body \<noteq> []" "CHR ''>'' \<notin> set body"
        by (auto simp: placeholder_rest_Some_iff)
      with here(1) have "c # cs = [] @ CHR ''<'' # body @ CHR ''>'' # rest \<and> body \<noteq> [] \<and> CHR ''>'' \<notin> set body"
        by simp
      then show ?thesis by blast
    next
      case later
      with Cons.IH obtain pre body post where
        "cs = pre @ CHR ''<'' # body @ CHR ''>'' # post" "body \<noteq> []" "CHR ''>'' \<notin> set body"
        by blast
      then have "c # cs = (c # pre) @ CHR ''<'' # body @ CHR ''>'' # post \<and> body \<noteq> [] \<and> CHR ''>'' \<notin> set body"
        by simp
      then show ?thesis by blast
    qed
  next
    assume "\<exists>pre body post. c # cs = pre @ CHR ''<'' # body @ CHR ''>'' # post \<and> body \<noteq> [] \<and> CHR ''>'' \<notin> set body"
    then obtain pre body post where e: "c # cs = pre @ CHR ''<'' # body @ CHR ''>'' # post"
      and b: "body \<noteq> []" "CHR ''>'' \<notin> set body" by blast
    show "has_placeholder (c # cs)"
    proof (cases pre)
      case Nil
      with e have "c = CHR ''<''" and "cs = body @ CHR ''>'' # post" by simp_all
      with b have "placeholder_rest cs = Some post" by (auto simp: placeholder_rest_Some_iff)
      with \<open>c = CHR ''<''\<close> show ?thesis by simp
    next
      case (Cons p ps)
      with e have "cs = ps @ CHR ''<'' # body @ CHR ''>'' # post" by simp
      with b Cons.IH have "has_placeholder cs" by blast
      then show ?thesis by simp
    qed
  qed
qed

lemma normalize_example: "normalize_template ''<TIMESTAMP> <*> <IP_ADDRESS>'' = ''<*> <*> <*>''"
  by code_simp

section \<open>The extractors after a successful completion call\<close>

lemma extract_zero_decoded:
  assumes "chat_completions_create client ''gpt-4'' 0 [(''user'', zero_shot_prompt log_line)] (remote s) = (Inr response, w)"
    and "choices response = c # cs" and "content (message c) = Some raw"
  shows "extract_template_and_variables client loads log_line s =
     (case loads (strip raw) of
        Inr v \<Rightarrow> (Inr v, s\<lparr>remote := w\<rparr>)
      | Inl (JSONDecodeError msg) \<Rightarrow>
          (Inr (JDict [(''template'', JStr ''<PARSE_ERROR>''), (''variables'', JDict []),
                       (''error'', JStr msg)]), s\<lparr>remote := w\<rparr>)
      | Inl e \<Rightarrow> (Inl e, s\<lparr>remote := w\<rparr>))"
  using assms by (simp add: extract_template_and_variables_def Let_def)

lemma extract_few_decoded:
  assumes "chat_completions_create client ''gpt-4'' 0 [(''user'', few_shot_prompt log_line ex)] (remote s) = (Inr response, w)"
    and "choices response = c # cs" and "content (message c) = Some raw"
  shows "extract_template_and_variables_fewshot client loads log_line ex s =
     (case loads (strip raw) of
        Inr v \<Rightarrow> (Inr v, print (RawModelOutput (strip raw)) (s\<lparr>remote := w\<rparr>))
      | Inl (JSONDecodeError msg) \<Rightarrow>
          (Inr (JDict [(''template'', JStr ''<PARSE_ERROR>''), (''variables'', JDict []),
                       (''error'', JStr msg)]), print (RawModelOutput (strip raw)) (s\<lparr>remote := w\<rparr>))
      | Inl e \<Rightarrow> (Inl e, print (RawModelOutput (strip raw)) (s\<lparr>remote := w\<rparr>)))"
  using assms by (simp add: extract_template_and_variables_fewshot_def Let_def)

section \<open>Evaluation of the scripted services\<close>

lemma strip_apology: "strip apology_raw = apology_text"
  by (simp add: apology_raw_def apology_text_def strip_def isspace_def)

lemma strip_two_field: "strip two_field_text = two_field_text"
  by (simp add: two_field_text_def quoted_def strip_def isspace_def)

lemma strip_unknown_field: "strip unknown_field_text = unknown_field_text"
  by (simp add: unknown_field_text_def quoted_def strip_def isspace_def)

lemma sample_loads_apology:
  "sample_loads apology_text = Inl (JSONDecodeError ''Expecting value: line 1 column 1 (char 0)'')"
  by (simp add: sample_loads_def table_loads_def apology_text_def unknown_field_text_def
      two_field_text_def no_template_text_def quoted_def)

lemma strip_no_template: "strip no_template_text = no_template_text"
  by (simp add: no_template_text_def quoted_def strip_def isspace_def)

lemma sample_loads_no_template: "sample_loads no_template_text = Inr no_template_value"
  by (simp add: sample_loads_def table_loads_def unknown_field_text_def
      two_field_text_def no_template_text_def quoted_def)

lemma sample_loads_two_field: "sample_loads two_field_text = Inr two_field_value"
  by (simp add: sample_loads_def table_loads_def unknown_field_text_def
      two_field_text_def quoted_def)

lemma sample_loads_unknown_field: "sample_loads unknown_field_text = Inr unknown_field_value"
  by (simp add: sample_loads_def table_loads_def)

lemma scripted_chat_reply:
  "chat_completions_create scripted_client m t msgs (remote (start (reply text # rs) es)) =
     (Inr (response_with text), remote (start rs es))"
  by (simp add: scripted_client_def start_def reply_def)

lemma scripted_chat_raise:
  "chat_completions_create scripted_client m t msgs (remote (start (Inl e # rs) es)) =
     (Inl e, remote (start rs es))"
  by (simp add: scripted_client_def start_def)

lemma start_remote [simp]: "start rs es\<lparr>remote := remote (start rs' es')\<rparr> = start rs' es'"
  by (simp add: start_def)

lemma choices_response_with: "choices (response_with text) = [\<lparr>message = \<lparr>content = Some text\<rparr>\<rparr>]"
  by (simp add: response_with_def)

lemma scripted_embeddings:
  "embeddings_create scripted_client m inp
       \<lparr>chat_replies = cs, embedding_replies = r # es, embedding_inputs = ins\<rparr> =
     (r, \<lparr>chat_replies = cs, embedding_replies = es, embedding_inputs = ins @ [inp]\<rparr>)"
  by (simp add: scripted_client_def)

lemma scripted_chat:
  "chat_completions_create scripted_client m t msgs
       \<lparr>chat_replies = r # rs, embedding_replies = es, embedding_inputs = ins\<rparr> =
     (r, \<lparr>chat_replies = rs, embedding_replies = es, embedding_inputs = ins\<rparr>)"
  by (simp add: scripted_client_def)

lemma data_vectors: "vectors vs = Inr \<lparr>data = map (\<lambda>v. \<lparr>embedding = v\<rparr>) vs\<rparr>"
  by (simp add: vectors_def)

lemma extract_zero_raise:
  "chat_completions_create client ''gpt-4'' 0 [(''user'', zero_shot_prompt log_line)] (remote s)
     = (Inl e, w) \<Longrightarrow>
   extract_template_and_variables client loads log_line s = (Inl e, s\<lparr>remote := w\<rparr>)"
  by (simp add: extract_template_and_variables_def)

lemma extract_few_raise:
  "chat_completions_create client ''gpt-4'' 0 [(''user'', few_shot_prompt log_line ex)] (remote s)
     = (Inl e, w) \<Longrightarrow>
   extract_template_and_variables_fewshot client loads log_line ex s = (Inl e, s\<lparr>remote := w\<rparr>)"
  by (simp add: extract_template_and_variables_fewshot_def)

lemma get_embedding_stdout: "get_embedding client t s = (r, s') \<Longrightarrow> stdout s' = stdout s"
  by (auto simp: get_embedding_def split: prod.splits sum.splits list.splits)

lemma extract_few_stdout:
  "extract_template_and_variables_fewshot client loads log ex s = (Inr v, s') \<Longrightarrow>
   \<exists>c. stdout s' = stdout s @ [RawModelOutput c]"
  by (auto simp: extract_template_and_variables_fewshot_def Let_def print_def
      split: prod.splits sum.splits list.splits option.splits exn.splits)

lemma main_body_not_in:
  assumes "extract_template_and_variables_fewshot client loads log FEW_SHOT_EXAMPLES
             (print (Processing log) s) = (Inr (JDict kvs), s2)"
    and "''template'' \<notin> fst ` set kvs"
  shows "main_body client loads log s = (Inr (), print (ParsedResult (JDict kvs)) s2)"
  using assms by (simp add: main_body_def Let_def)

lemma main_body_in:
  assumes "extract_template_and_variables_fewshot client loads log FEW_SHOT_EXAMPLES
             (print (Processing log) s) = (Inr (JDict kvs), s2)"
    and "map_of kvs ''template'' = Some (JStr t)"
  shows "main_body client loads log s =
           (case get_embedding client (normalize_template t) (print (ParsedResult (JDict kvs)) s2) of
              (Inl e, s4) \<Rightarrow> (Inl e, s4)
            | (Inr vec, s4) \<Rightarrow> (Inr (), print (EmbeddingLength (length vec)) s4))"
proof -
  from assms(2) have "''template'' \<in> fst ` set kvs"
    by (metis map_of_eq_None_iff option.distinct(1))
  with assms show ?thesis by (simp add: main_body_def Let_def)
qed

lemma processed_append: "processed (xs @ ys) = processed xs @ processed ys"
  by (induction xs rule: processed.induct) simp_all

lemma parsed_results_append: "parsed_results (xs @ ys) = parsed_results xs @ parsed_results ys"
  by (induction xs rule: parsed_results.induct) simp_all

lemma main_body_stdout:
  assumes "main_body client loads log s = (Inr (), s')"
  shows "\<exists>c r tl. stdout s' = stdout s @ Processing log # RawModelOutput c # ParsedResult r # tl \<and>
           (tl = [] \<or> (\<exists>n. tl = [EmbeddingLength n]))"
proof -
  obtain x s2 where ex: "extract_template_and_variables_fewshot client loads log FEW_SHOT_EXAMPLES
      (print (Processing log) s) = (x, s2)"
    by (cases "extract_template_and_variables_fewshot client loads log FEW_SHOT_EXAMPLES
      (print (Processing log) s)")
  show ?thesis
  proof (cases x)
    case (Inl e)
    with ex assms show ?thesis by (simp add: main_body_def Let_def)
  next
    case (Inr result)
    with ex obtain c where c: "stdout s2 = stdout s @ [Processing log, RawModelOutput c]"
      using extract_few_stdout[of client loads log FEW_SHOT_EXAMPLES "print (Processing log) s" result s2]
      by (auto simp: print_def)
    let ?s3 = "print (ParsedResult result) s2"
    have s3: "stdout ?s3 = stdout s @ [Processing log, RawModelOutput c, ParsedResult result]"
      using c by (simp add: print_def)
    from assms ex Inr have
      "s' = ?s3 \<or> (\<exists>t vec s4. get_embedding client t ?s3 = (Inr vec, s4) \<and>
                      s' = print (EmbeddingLength (length vec)) s4)"
      by (auto simp: main_body_def Let_def split: sum.splits if_splits json.splits prod.splits)
    then show ?thesis
    proof
      assume "s' = ?s3"
      with s3 show ?thesis by simp
    next
      assume "\<exists>t vec s4. get_embedding client t ?s3 = (Inr vec, s4) \<and>
                      s' = print (EmbeddingLength (length vec)) s4"
      then obtain t vec s4 where g: "get_embedding client t ?s3 = (Inr vec, s4)"
        and s': "s' = print (EmbeddingLength (length vec)) s4" by blast
      from get_embedding_stdout[OF g] s3 s' show ?thesis by (simp add: print_def)
    qed
  qed
qed

lemma extract_few_scripted_decoded:
  "loads (strip text) = Inr v \<Longrightarrow>
   extract_template_and_variables_fewshot scripted_client loads log ex
       \<lparr>stdout = out,
        remote = \<lparr>chat_replies = reply text # rs, embedding_replies = es, embedding_inputs = ins\<rparr>\<rparr> =
     (Inr v,
      \<lparr>stdout = out @ [RawModelOutput (strip text)],
       remote = \<lparr>chat_replies = rs, embedding_replies = es, embedding_inputs = ins\<rparr>\<rparr>)"
  by (simp add: extract_template_and_variables_fewshot_def scripted_chat reply_def
      response_with_def print_def)

lemma extract_few_scripted_sentinel:
  "loads (strip text) = Inl (JSONDecodeError msg) \<Longrightarrow>
   extract_template_and_variables_fewshot scripted_client loads log ex
       \<lparr>stdout = out,
        remote = \<lparr>chat_replies = reply text # rs, embedding_replies = es, embedding_inputs = ins\<rparr>\<rparr> =
     (Inr (JDict [(''template'', JStr ''<PARSE_ERROR>''), (''variables'', JDict []),
                  (''error'', JStr msg)]),
      \<lparr>stdout = out @ [RawModelOutput (strip text)],
       remote = \<lparr>chat_replies = rs, embedding_replies = es, embedding_inputs = ins\<rparr>\<rparr>)"
  by (simp add: extract_template_and_variables_fewshot_def scripted_chat reply_def
      response_with_def print_def)

lemma get_embedding_scripted:
  "get_embedding scripted_client t
       \<lparr>stdout = out,
        remote = \<lparr>chat_replies = cs, embedding_replies = vectors (v # vs) # es,
                  embedding_inputs = ins\<rparr>\<rparr> =
     (Inr v,
      \<lparr>stdout = out,
       remote = \<lparr>chat_replies = cs, embedding_replies = es, embedding_inputs = ins @ [[t]]\<rparr>\<rparr>)"
  by (simp add: get_embedding_def scripted_embeddings vectors_def)

lemma get_embedding_scripted_raise:
  "get_embedding scripted_client t
       \<lparr>stdout = out,
        remote = \<lparr>chat_replies = cs, embedding_replies = Inl e # es, embedding_inputs = ins\<rparr>\<rparr> =
     (Inl e,
      \<lparr>stdout = out,
       remote = \<lparr>chat_replies = cs, embedding_replies = es, embedding_inputs = ins @ [[t]]\<rparr>\<rparr>)"
  by (simp add: get_embedding_def scripted_embeddings)

lemma normalize_job: "normalize_template ''job <ID> done'' = ''job <*> done''"
  by code_simp

lemma normalize_sentinel: "normalize_template ''<PARSE_ERROR>'' = ''<*>''"
  by code_simp

lemma main_body_scripted_two_field:
  "main_body scripted_client sample_loads log
       \<lparr>stdout = out,
        remote = \<lparr>chat_replies = reply two_field_text # rs,
                  embedding_replies = vectors (v # vs) # es, embedding_inputs = ins\<rparr>\<rparr> =
     (Inr (),
      \<lparr>stdout = out @ [Processing log, RawModelOutput two_field_text, ParsedResult two_field_value,
                        EmbeddingLength (length v)],
       remote = \<lparr>chat_replies = rs, embedding_replies = es,
                 embedding_inputs = ins @ [[''job <*> done'']]\<rparr>\<rparr>)"
proof -
  have l: "sample_loads (strip two_field_text) = Inr two_field_value"
    by (simp only: strip_two_field sample_loads_two_field)
  show ?thesis
    by (simp add: main_body_def print_def extract_few_scripted_decoded[where loads = sample_loads, OF l]
        strip_two_field two_field_value_def get_embedding_scripted normalize_job)
qed

lemma main_body_scripted_two_field_raise:
  "main_body scripted_client sample_loads log
       \<lparr>stdout = out,
        remote = \<lparr>chat_replies = reply two_field_text # rs,
                  embedding_replies = Inl e # es, embedding_inputs = ins\<rparr>\<rparr> =
     (Inl e,
      \<lparr>stdout = out @ [Processing log, RawModelOutput two_field_text, ParsedResult two_field_value],
       remote = \<lparr>chat_replies = rs, embedding_replies = es,
                 embedding_inputs = ins @ [[''job <*> done'']]\<rparr>\<rparr>)"
proof -
  have l: "sample_loads (strip two_field_text) = Inr two_field_value"
    by (simp only: strip_two_field sample_loads_two_field)
  show ?thesis
    by (simp add: main_body_def print_def extract_few_scripted_decoded[where loads = sample_loads, OF l]
        strip_two_field two_field_value_def get_embedding_scripted_raise normalize_job)
qed

lemma main_body_scripted_apology:
  "main_body scripted_client sample_loads log
       \<lparr>stdout = out,
        remote = \<lparr>chat_replies = reply apology_raw # rs,
                  embedding_replies = vectors (v # vs) # es, embedding_inputs = ins\<rparr>\<rparr> =
     (Inr (),
      \<lparr>stdout = out @ [Processing log, RawModelOutput apology_text,
                        ParsedResult (JDict [(''template'', JStr ''<PARSE_ERROR>''),
                                             (''variables'', JDict []),
                                             (''error'', JStr ''Expecting value: line 1 column 1 (char 0)'')]),
                        EmbeddingLength (length v)],
       remote = \<lparr>chat_replies = rs, embedding_replies = es,
                 embedding_inputs = ins @ [[''<*>'']]\<rparr>\<rparr>)"
proof -
  have l: "sample_loads (strip apology_raw) =
      Inl (JSONDecodeError ''Expecting value: line 1 column 1 (char 0)'')"
    by (simp only: strip_apology sample_loads_apology)
  show ?thesis
    by (simp add: main_body_def print_def extract_few_scripted_sentinel[where loads = sample_loads, OF l]
        strip_apology get_embedding_scripted normalize_sentinel)
qed

lemma main_body_scripted_no_template:
  "main_body scripted_client sample_loads log
       \<lparr>stdout = out,
        remote = \<lparr>chat_replies = reply no_template_text # rs,
                  embedding_replies = es, embedding_inputs = ins\<rparr>\<rparr> =
     (Inr (),
      \<lparr>stdout = out @ [Processing log, RawModelOutput no_template_text,
                        ParsedResult no_template_value],
       remote = \<lparr>chat_replies = rs, embedding_replies = es, embedding_inputs = ins\<rparr>\<rparr>)"
proof -
  have l: "sample_loads (strip no_template_text) = Inr no_template_value"
    by (simp only: strip_no_template sample_loads_no_template)
  show ?thesis
    by (simp add: main_body_def print_def extract_few_scripted_decoded[where loads = sample_loads, OF l]
        strip_no_template no_template_value_def)
qed

lemma main_body_scripted_chat_raise:
  "main_body scripted_client sample_loads log
       \<lparr>stdout = out,
        remote = \<lparr>chat_replies = Inl e # rs, embedding_replies = es, embedding_inputs = ins\<rparr>\<rparr> =
     (Inl e,
      \<lparr>stdout = out @ [Processing log],
       remote = \<lparr>chat_replies = rs, embedding_replies = es, embedding_inputs = ins\<rparr>\<rparr>)"
  by (simp add: main_body_def print_def extract_template_and_variables_fewshot_def scripted_chat)

lemma strip_deep: "strip deep_text = deep_text"
  by (simp add: strip_def deep_text_def isspace_def)

lemma limited_loads_deep:
  "limited_loads deep_text =
     Inl (OtherError ''RecursionError: maximum recursion depth exceeded while decoding a JSON array from a unicode string'')"
  by (simp add: limited_loads_def)

lemma extract_few_stdout_cases:
  "extract_template_and_variables_fewshot client loads log ex s = (r, s') \<Longrightarrow>
   stdout s' = stdout s \<or> (\<exists>c. stdout s' = stdout s @ [RawModelOutput c])"
  by (auto simp: extract_template_and_variables_fewshot_def Let_def print_def
      split: prod.splits sum.splits list.splits option.splits exn.splits)

lemma extract_few_stdout_any:
  assumes "extract_template_and_variables_fewshot client loads log ex s = (r, s')"
  shows "\<exists>evs. stdout s' = stdout s @ evs \<and> processed evs = []"
proof -
  from extract_few_stdout_cases[OF assms] show ?thesis
  proof
    assume "stdout s' = stdout s"
    then have "stdout s' = stdout s @ [] \<and> processed ([] :: 'a event list) = []" by simp
    then show ?thesis by blast
  next
    assume "\<exists>c. stdout s' = stdout s @ [RawModelOutput c]"
    then obtain c where "stdout s' = stdout s @ [RawModelOutput c]" ..
    then have "stdout s' = stdout s @ [RawModelOutput c] \<and>
        processed [RawModelOutput c :: 'a event] = []" by simp
    then show ?thesis by blast
  qed
qed

lemma main_body_stdout_any:
  assumes "main_body client loads log s = (r, s')"
  shows "\<exists>evs. stdout s' = stdout s @ Processing log # evs \<and> processed evs = []"
proof -
  obtain x s2 where ex: "extract_template_and_variables_fewshot client loads log FEW_SHOT_EXAMPLES
      (print (Processing log) s) = (x, s2)"
    by (cases "extract_template_and_variables_fewshot client loads log FEW_SHOT_EXAMPLES
      (print (Processing log) s)")
  from extract_few_stdout_any[OF ex] obtain e1 where
    e1: "stdout s2 = stdout s @ Processing log # e1" and p1: "processed e1 = []"
    by (auto simp: print_def)
  show ?thesis
  proof (cases x)
    case (Inl e)
    with ex assms have "s' = s2" by (simp add: main_body_def Let_def)
    with e1 p1 show ?thesis by blast
  next
    case (Inr result)
    let ?s3 = "print (ParsedResult result) s2"
    have s3: "stdout ?s3 = stdout s @ Processing log # (e1 @ [ParsedResult result])"
      using e1 by (simp add: print_def)
    have p3: "processed (e1 @ [ParsedResult result]) = []"
      using p1 by (simp add: processed_append)
    from assms ex Inr have
      "s' = ?s3 \<or> (\<exists>t q s4. get_embedding client t ?s3 = (q, s4) \<and>
           (s' = s4 \<or> (\<exists>n. s' = print (EmbeddingLength n) s4)))"
      by (auto simp: main_body_def Let_def split: sum.splits if_splits json.splits prod.splits)
    then show ?thesis
    proof
      assume "s' = ?s3"
      with s3 p3 show ?thesis by blast
    next
      assume "\<exists>t q s4. get_embedding client t ?s3 = (q, s4) \<and>
           (s' = s4 \<or> (\<exists>n. s' = print (EmbeddingLength n) s4))"
      then obtain t q s4 where g: "get_embedding client t ?s3 = (q, s4)"
        and s': "s' = s4 \<or> (\<exists>n. s' = print (EmbeddingLength n) s4)" by blast
      from get_embedding_stdout[OF g] s3
      have s4: "stdout s4 = stdout s @ Processing log # (e1 @ [ParsedResult result])" by simp
      from s' show ?thesis
      proof
        assume "s' = s4"
        with s4 p3 show ?thesis by blast
      next
        assume "\<exists>n. s' = print (EmbeddingLength n) s4"
        then obtain n where "s' = print (EmbeddingLength n) s4" ..
        with s4 have "stdout s' = stdout s @ Processing log #
            (e1 @ [ParsedResult result, EmbeddingLength n])"
          by (simp add: print_def)
        moreover have "processed (e1 @ [ParsedResult result, EmbeddingLength n]) = []"
          using p1 by (simp add: processed_append)
        ultimately show ?thesis by blast
      qed
    qed
  qed
qed

lemma main_loop_append:
  "main_loop client loads pre s = (Inr (), s1) \<Longrightarrow>
   main_loop client loads (pre @ post) s = main_loop client loads post s1"
  by (induction pre arbitrary: s) (auto split: prod.splits sum.splits)

lemma line_results_step:
  "ts = [] \<or> (\<exists>n. ts = [EmbeddingLength n]) \<Longrightarrow>
   line_results (Processing l # RawModelOutput c # ParsedResult r0 # ts @ evs) =
     (l, r0) # line_results evs"
  by auto

lemma main_loop_results:
  "main_loop client loads ls s = (Inr (), s') \<Longrightarrow>
   \<exists>evs. stdout s' = stdout s @ evs \<and> processed evs = ls \<and>
         map fst (line_results evs) = ls \<and> length (parsed_results evs) = length ls"
proof (induction ls arbitrary: s)
  case Nil
  then show ?case by simp
next
  case (Cons l ls)
  from Cons.prems obtain s1 where b: "main_body client loads l s = (Inr (), s1)"
    and r: "main_loop client loads ls s1 = (Inr (), s')"
    by (auto split: prod.splits sum.splits)
  from main_body_stdout[OF b] obtain c r0 ts where
    o: "stdout s1 = stdout s @ Processing l # RawModelOutput c # ParsedResult r0 # ts"
    and ts: "ts = [] \<or> (\<exists>n. ts = [EmbeddingLength n])" by blast
  from Cons.IH[OF r] obtain evs where e: "stdout s' = stdout s1 @ evs"
    and p: "processed evs = ls" and q: "map fst (line_results evs) = ls"
    and n: "length (parsed_results evs) = length ls" by (elim exE conjE)
  let ?evs = "Processing l # RawModelOutput c # ParsedResult r0 # ts @ evs"
  have 1: "stdout s' = stdout s @ ?evs" using e o by simp
  have 2: "processed ?evs = l # ls" using ts p by (auto simp: processed_append)
  have "line_results ?evs = (l, r0) # line_results evs" using ts by (rule line_results_step)
  then have 3: "map fst (line_results ?evs) = l # ls" using q by simp
  have 4: "length (parsed_results ?evs) = length (l # ls)"
    using ts n by (auto simp: parsed_results_append)
  show ?case
  proof (intro exI conjI)
    show "stdout s' = stdout s @ ?evs" by (fact 1)
    show "processed ?evs = l # ls" by (fact 2)
    show "map fst (line_results ?evs) = l # ls" by (fact 3)
    show "length (parsed_results ?evs) = length (l # ls)" by (fact 4)
  qed
qed

lemma main_loop_abort_at:
  assumes "main_loop client loads pre s = (Inr (), s1)"
    and "main_body client loads l s1 = (Inl e, s2)"
  shows "main_loop client loads (pre @ l # rest) s = (Inl e, s2) \<and>
         (\<exists>evs. stdout s2 = stdout s @ evs \<and> processed evs = pre @ [l])"
proof -
  have "main_loop client loads (pre @ l # rest) s = (Inl e, s2)"
    using main_loop_append[OF assms(1), of "l # rest"] assms(2) by simp
  moreover from main_loop_results[OF assms(1)] obtain e1 where
    "stdout s1 = stdout s @ e1" and "processed e1 = pre" by blast
  moreover from main_body_stdout_any[OF assms(2)] obtain e2 where
    "stdout s2 = stdout s1 @ Processing l # e2" and "processed e2 = []" by blast
  ultimately have "stdout s2 = stdout s @ (e1 @ Processing l # e2)"
    and "processed (e1 @ Processing l # e2) = pre @ [l]"
    by (simp_all add: processed_append)
  with \<open>main_loop client loads (pre @ l # rest) s = (Inl e, s2)\<close> show ?thesis by blast
qed

lemma main_loop_failed:
  "main_loop client loads ls s = (Inl e, s2) \<Longrightarrow>
   \<exists>pre l rest s1. ls = pre @ l # rest \<and> main_loop client loads pre s = (Inr (), s1) \<and>
       main_body client loads l s1 = (Inl e, s2)"
proof (induction ls arbitrary: s)
  case Nil
  then show ?case by simp
next
  case (Cons a ls)
  obtain x sa where b: "main_body client loads a s = (x, sa)"
    by (cases "main_body client loads a s")
  show ?case
  proof (cases x)
    case (Inl e')
    with b Cons.prems have "e' = e" and "sa = s2" by simp_all
    with b Inl have "a # ls = [] @ a # ls \<and> main_loop client loads [] s = (Inr (), s) \<and>
        main_body client loads a s = (Inl e, s2)" by simp
    then show ?thesis by blast
  next
    case (Inr u)
    with b Cons.prems have r: "main_loop client loads ls sa = (Inl e, s2)" by simp
    from Cons.IH[OF r] obtain pre l rest s1 where d: "ls = pre @ l # rest"
      and p: "main_loop client loads pre sa = (Inr (), s1)"
      and f: "main_body client loads l s1 = (Inl e, s2)" by blast
    from b Inr p have "main_loop client loads (a # pre) s = (Inr (), s1)" by simp
    with d f have "a # ls = (a # pre) @ l # rest \<and>
        main_loop client loads (a # pre) s = (Inr (), s1) \<and>
        main_body client loads l s1 = (Inl e, s2)" by simp
    then show ?thesis by blast
  qed
qed

section \<open>Properties of the specification\<close>

text \<open>
  C1 (as the code has it): the \<^verbatim>\<open>try\<close> of both extractors catches \<^verbatim>\<open>json.JSONDecodeError\<close>
  and nothing else. When the decoder fails on the stripped response text with that
  exception, the extractor returns the sentinel record: template \<^verbatim>\<open><PARSE_ERROR>\<close>, an empty
  variables mapping and the decoder's message under \<^verbatim>\<open>error\<close>. When the decoder fails with
  any other exception, the extractor raises that exception. In both cases the state is the
  one the completion call left (and, for the few-shot extractor, the raw text is printed).
\<close>

theorem decode_failure_outcome:
  assumes "choices response = c # cs" and "content (message c) = Some raw"
    and "loads (strip raw) = Inl e"
  shows "(chat_completions_create client ''gpt-4'' 0 [(''user'', zero_shot_prompt log_line)] (remote s)
            = (Inr response, w) \<longrightarrow>
          extract_template_and_variables client loads log_line s =
            (case e of
               JSONDecodeError msg \<Rightarrow>
                 Inr (JDict [(''template'', JStr ''<PARSE_ERROR>''), (''variables'', JDict []),
                             (''error'', JStr msg)])
             | _ \<Rightarrow> Inl e,
             s\<lparr>remote := w\<rparr>)) \<and>
         (chat_completions_create client ''gpt-4'' 0 [(''user'', few_shot_prompt log_line ex)] (remote s)
            = (Inr response, w) \<longrightarrow>
          extract_template_and_variables_fewshot client loads log_line ex s =
            (case e of
               JSONDecodeError msg \<Rightarrow>
                 Inr (JDict [(''template'', JStr ''<PARSE_ERROR>''), (''variables'', JDict []),
                             (''error'', JStr msg)])
             | _ \<Rightarrow> Inl e,
             print (RawModelOutput (strip raw)) (s\<lparr>remote := w\<rparr>)))"
  using assms by (simp add: extract_zero_decoded extract_few_decoded split: exn.splits)

theorem decode_failure_outcome_witness:
  "(choices (response_with apology_raw) = [\<lparr>message = \<lparr>content = Some apology_raw\<rparr>\<rparr>] \<and>
    content (message \<lparr>message = \<lparr>content = Some apology_raw\<rparr>\<rparr>) = Some apology_raw \<and>
    sample_loads (strip apology_raw) =
      Inl (JSONDecodeError ''Expecting value: line 1 column 1 (char 0)'') \<and>
    chat_completions_create scripted_client ''gpt-4'' 0 [(''user'', zero_shot_prompt ''disk full'')]
        (remote (start [reply apology_raw] [])) =
      (Inr (response_with apology_raw), remote (start [] [])) \<and>
    extract_template_and_variables scripted_client sample_loads ''disk full''
        (start [reply apology_raw] []) =
      (Inr (JDict [(''template'', JStr ''<PARSE_ERROR>''), (''variables'', JDict []),
                   (''error'', JStr ''Expecting value: line 1 column 1 (char 0)'')]),
       start [] []) \<and>
    chat_completions_create scripted_client ''gpt-4'' 0
        [(''user'', few_shot_prompt ''disk full'' FEW_SHOT_EXAMPLES)]
        (remote (start [reply apology_raw] [])) =
      (Inr (response_with apology_raw), remote (start [] [])) \<and>
    extract_template_and_variables_fewshot scripted_client sample_loads ''disk full''
        FEW_SHOT_EXAMPLES (start [reply apology_raw] []) =
      (Inr (JDict [(''template'', JStr ''<PARSE_ERROR>''), (''variables'', JDict []),
                   (''error'', JStr ''Expecting value: line 1 column 1 (char 0)'')]),
       print (RawModelOutput apology_text) (start [] []))) \<and>
   (choices (response_with deep_text) = [\<lparr>message = \<lparr>content = Some deep_text\<rparr>\<rparr>] \<and>
    content (message \<lparr>message = \<lparr>content = Some deep_text\<rparr>\<rparr>) = Some deep_text \<and>
    limited_loads (strip deep_text) =
      Inl (OtherError ''RecursionError: maximum recursion depth exceeded while decoding a JSON array from a unicode string'') \<and>
    chat_completions_create scripted_client ''gpt-4'' 0 [(''user'', zero_shot_prompt ''disk full'')]
        (remote (start [reply deep_text] [])) =
      (Inr (response_with deep_text), remote (start [] [])) \<and>
    extract_template_and_variables scripted_client limited_loads ''disk full''
        (start [reply deep_text] []) =
      (Inl (OtherError ''RecursionError: maximum recursion depth exceeded while decoding a JSON array from a unicode string''),
       start [] []) \<and>
    chat_completions_create scripted_client ''gpt-4'' 0
        [(''user'', few_shot_prompt ''disk full'' FEW_SHOT_EXAMPLES)]
        (remote (start [reply deep_text] [])) =
      (Inr (response_with deep_text), remote (start [] [])) \<and>
    extract_template_and_variables_fewshot scripted_client limited_loads ''disk full''
        FEW_SHOT_EXAMPLES (start [reply deep_text] []) =
      (Inl (OtherError ''RecursionError: maximum recursion depth exceeded while decoding a JSON array from a unicode string''),
       print (RawModelOutput deep_text) (start [] [])))"
proof -
  have a1: "choices (response_with apology_raw) = \<lparr>message = \<lparr>content = Some apology_raw\<rparr>\<rparr> # []"
    by (rule choices_response_with)
  have a2: "content (message \<lparr>message = \<lparr>content = Some apology_raw\<rparr>\<rparr>) = Some apology_raw"
    by simp
  have a3: "sample_loads (strip apology_raw) =
      Inl (JSONDecodeError ''Expecting value: line 1 column 1 (char 0)'')"
    by (simp only: strip_apology sample_loads_apology)
  note ta = decode_failure_outcome[where loads = sample_loads and client = scripted_client
      and log_line = "''disk full''" and s = "start [reply apology_raw] []"
      and w = "remote (start [] [])" and ex = FEW_SHOT_EXAMPLES, OF a1 a2 a3]
  have a: "choices (response_with apology_raw) = [\<lparr>message = \<lparr>content = Some apology_raw\<rparr>\<rparr>] \<and>
    content (message \<lparr>message = \<lparr>content = Some apology_raw\<rparr>\<rparr>) = Some apology_raw \<and>
    sample_loads (strip apology_raw) =
      Inl (JSONDecodeError ''Expecting value: line 1 column 1 (char 0)'') \<and>
    chat_completions_create scripted_client ''gpt-4'' 0 [(''user'', zero_shot_prompt ''disk full'')]
        (remote (start [reply apology_raw] [])) =
      (Inr (response_with apology_raw), remote (start [] [])) \<and>
    extract_template_and_variables scripted_client sample_loads ''disk full''
        (start [reply apology_raw] []) =
      (Inr (JDict [(''template'', JStr ''<PARSE_ERROR>''), (''variables'', JDict []),
                   (''error'', JStr ''Expecting value: line 1 column 1 (char 0)'')]),
       start [] []) \<and>
    chat_completions_create scripted_client ''gpt-4'' 0
        [(''user'', few_shot_prompt ''disk full'' FEW_SHOT_EXAMPLES)]
        (remote (start [reply apology_raw] [])) =
      (Inr (response_with apology_raw), remote (start [] [])) \<and>
    extract_template_and_variables_fewshot scripted_client sample_loads ''disk full''
        FEW_SHOT_EXAMPLES (start [reply apology_raw] []) =
      (Inr (JDict [(''template'', JStr ''<PARSE_ERROR>''), (''variables'', JDict []),
                   (''error'', JStr ''Expecting value: line 1 column 1 (char 0)'')]),
       print (RawModelOutput apology_text) (start [] []))"
    using ta a1 a2 a3 by (simp add: scripted_chat_reply strip_apology)
  have b1: "choices (response_with deep_text) = \<lparr>message = \<lparr>content = Some deep_text\<rparr>\<rparr> # []"
    by (rule choices_response_with)
  have b2: "content (message \<lparr>message = \<lparr>content = Some deep_text\<rparr>\<rparr>) = Some deep_text"
    by simp
  have b3: "limited_loads (strip deep_text) =
      Inl (OtherError ''RecursionError: maximum recursion depth exceeded while decoding a JSON array from a unicode string'')"
    by (simp only: strip_deep limited_loads_deep)
  note tb = decode_failure_outcome[where loads = limited_loads and client = scripted_client
      and log_line = "''disk full''" and s = "start [reply deep_text] []"
      and w = "remote (start [] [])" and ex = FEW_SHOT_EXAMPLES, OF b1 b2 b3]
  have b: "choices (response_with deep_text) = [\<lparr>message = \<lparr>content = Some deep_text\<rparr>\<rparr>] \<and>
    content (message \<lparr>message = \<lparr>content = Some deep_text\<rparr>\<rparr>) = Some deep_text \<and>
    limited_loads (strip deep_text) =
      Inl (OtherError ''RecursionError: maximum recursion depth exceeded while decoding a JSON array from a unicode string'') \<and>
    chat_completions_create scripted_client ''gpt-4'' 0 [(''user'', zero_shot_prompt ''disk full'')]
        (remote (start [reply deep_text] [])) =
      (Inr (response_with deep_text), remote (start [] [])) \<and>
    extract_template_and_variables scripted_client limited_loads ''disk full''
        (start [reply deep_text] []) =
      (Inl (OtherError ''RecursionError: maximum recursion depth exceeded while decoding a JSON array from a unicode string''),
       start [] []) \<and>
    chat_completions_create scripted_client ''gpt-4'' 0
        [(''user'', few_shot_prompt ''disk full'' FEW_SHOT_EXAMPLES)]
        (remote (start [reply deep_text] [])) =
      (Inr (response_with deep_text), remote (start [] [])) \<and>
    extract_template_and_variables_fewshot scripted_client limited_loads ''disk full''
        FEW_SHOT_EXAMPLES (start [reply deep_text] []) =
      (Inl (OtherError ''RecursionError: maximum recursion depth exceeded while decoding a JSON array from a unicode string''),
       print (RawModelOutput deep_text) (start [] []))"
    using tb b1 b2 b3 by (simp add: scripted_chat_reply strip_deep)
  from a b show ?thesis by (rule conjI)
qed

text \<open>
  C1, the specified behaviour refuted: a response of 1000 opening brackets fails decoding
  with \<^verbatim>\<open>RecursionError\<close>, and the zero-shot extractor raises it: no record is returned.
\<close>

theorem decode_failure_raises:
  "fst (extract_template_and_variables scripted_client limited_loads ''disk full''
          (start [reply deep_text] [])) =
     Inl (OtherError ''RecursionError: maximum recursion depth exceeded while decoding a JSON array from a unicode string'')"
  by (simp add: extract_template_and_variables_def scripted_chat_reply choices_response_with
      strip_deep limited_loads_deep)

text \<open>
  C2 (as the code has it): \<^verbatim>\<open>main\<close> tests \<^verbatim>\<open>"template" in result\<close> and nothing else. When the
  extractor returns a mapping without the key \<^verbatim>\<open>template\<close>, the line's result is printed and
  the embedding service is not called. When the mapping has a string under \<^verbatim>\<open>template\<close>, the
  embedding of the normalised template is requested, whether or not the mapping has an
  \<^verbatim>\<open>error\<close> entry and whether or not the template is empty.
\<close>

theorem embedding_condition:
  assumes "extract_template_and_variables_fewshot client loads log FEW_SHOT_EXAMPLES
             (print (Processing log) s) = (Inr (JDict kvs), s2)"
  shows "(''template'' \<notin> fst ` set kvs \<longrightarrow>
            main_body client loads log s = (Inr (), print (ParsedResult (JDict kvs)) s2)) \<and>
         (map_of kvs ''template'' = Some (JStr t) \<longrightarrow>
            main_body client loads log s =
              (case get_embedding client (normalize_template t)
                      (print (ParsedResult (JDict kvs)) s2) of
                 (Inl e, s4) \<Rightarrow> (Inl e, s4)
               | (Inr vec, s4) \<Rightarrow> (Inr (), print (EmbeddingLength (length vec)) s4)))"
  using main_body_not_in[OF assms] main_body_in[OF assms] by blast

theorem embedding_condition_witness:
  "(extract_template_and_variables_fewshot scripted_client sample_loads ''hello'' FEW_SHOT_EXAMPLES
        (print (Processing ''hello'') (start [reply no_template_text] [])) =
      (Inr (JDict [(''message'', JStr ''no log line was given'')]),
       \<lparr>stdout = [Processing ''hello'', RawModelOutput no_template_text],
        remote = \<lparr>chat_replies = [], embedding_replies = [], embedding_inputs = []\<rparr>\<rparr>) \<and>
    ''template'' \<notin> fst ` set [(''message'', JStr ''no log line was given'' :: int json)] \<and>
    main_body scripted_client sample_loads ''hello'' (start [reply no_template_text] []) =
      (Inr (),
       \<lparr>stdout = [Processing ''hello'', RawModelOutput no_template_text,
                  ParsedResult (JDict [(''message'', JStr ''no log line was given'')])],
        remote = \<lparr>chat_replies = [], embedding_replies = [], embedding_inputs = []\<rparr>\<rparr>)) \<and>
   (extract_template_and_variables_fewshot scripted_client sample_loads ''job 42 done''
        FEW_SHOT_EXAMPLES
        (print (Processing ''job 42 done'') (start [reply two_field_text] [vectors [[3, 1, 4]]])) =
      (Inr (JDict [(''template'', JStr ''job <ID> done''),
                   (''variables'', JDict [(''ID'', JStr ''42'')])]),
       \<lparr>stdout = [Processing ''job 42 done'', RawModelOutput two_field_text],
        remote = \<lparr>chat_replies = [], embedding_replies = [vectors [[3, 1, 4]]],
                  embedding_inputs = []\<rparr>\<rparr>) \<and>
    map_of [(''template'', JStr ''job <ID> done''),
            (''variables'', JDict [(''ID'', JStr ''42'' :: int json)])] ''template'' =
      Some (JStr ''job <ID> done'') \<and>
    main_body scripted_client sample_loads ''job 42 done''
        (start [reply two_field_text] [vectors [[3, 1, 4]]]) =
      (Inr (),
       \<lparr>stdout = [Processing ''job 42 done'', RawModelOutput two_field_text,
                  ParsedResult (JDict [(''template'', JStr ''job <ID> done''),
                                       (''variables'', JDict [(''ID'', JStr ''42'')])]),
                  EmbeddingLength 3],
        remote = \<lparr>chat_replies = [], embedding_replies = [],
                  embedding_inputs = [[''job <*> done'']]\<rparr>\<rparr>))"
proof -
  have la: "sample_loads (strip no_template_text) = Inr no_template_value"
    by (simp only: strip_no_template sample_loads_no_template)
  have lb: "sample_loads (strip two_field_text) = Inr two_field_value"
    by (simp only: strip_two_field sample_loads_two_field)
  have a1: "extract_template_and_variables_fewshot scripted_client sample_loads ''hello''
        FEW_SHOT_EXAMPLES (print (Processing ''hello'') (start [reply no_template_text] [])) =
      (Inr (JDict [(''message'', JStr ''no log line was given'')]),
       \<lparr>stdout = [Processing ''hello'', RawModelOutput no_template_text],
        remote = \<lparr>chat_replies = [], embedding_replies = [], embedding_inputs = []\<rparr>\<rparr>)"
    by (simp add: start_def print_def
        extract_few_scripted_decoded[where loads = sample_loads, OF la]
        strip_no_template no_template_value_def)
  have a2: "''template'' \<notin> fst ` set [(''message'', JStr ''no log line was given'' :: int json)]"
    by simp
  have b1: "extract_template_and_variables_fewshot scripted_client sample_loads ''job 42 done''
        FEW_SHOT_EXAMPLES
        (print (Processing ''job 42 done'') (start [reply two_field_text] [vectors [[3, 1, 4]]])) =
      (Inr (JDict [(''template'', JStr ''job <ID> done''),
                   (''variables'', JDict [(''ID'', JStr ''42'')])]),
       \<lparr>stdout = [Processing ''job 42 done'', RawModelOutput two_field_text],
        remote = \<lparr>chat_replies = [], embedding_replies = [vectors [[3, 1, 4]]],
                  embedding_inputs = []\<rparr>\<rparr>)"
    by (simp add: start_def print_def
        extract_few_scripted_decoded[where loads = sample_loads, OF lb]
        strip_two_field two_field_value_def)
  have b2: "map_of [(''template'', JStr ''job <ID> done''),
            (''variables'', JDict [(''ID'', JStr ''42'' :: int json)])] ''template'' =
      Some (JStr ''job <ID> done'')"
    by simp
  note ta = embedding_condition[OF a1, THEN conjunct1, rule_format, OF a2]
  note tb = embedding_condition[OF b1, THEN conjunct2, rule_format, OF b2]
  have ca: "main_body scripted_client sample_loads ''hello'' (start [reply no_template_text] []) =
      (Inr (),
       \<lparr>stdout = [Processing ''hello'', RawModelOutput no_template_text,
                  ParsedResult (JDict [(''message'', JStr ''no log line was given'')])],
        remote = \<lparr>chat_replies = [], embedding_replies = [], embedding_inputs = []\<rparr>\<rparr>)"
    using ta by (simp add: print_def)
  have cb: "main_body scripted_client sample_loads ''job 42 done''
        (start [reply two_field_text] [vectors [[3, 1, 4]]]) =
      (Inr (),
       \<lparr>stdout = [Processing ''job 42 done'', RawModelOutput two_field_text,
                  ParsedResult (JDict [(''template'', JStr ''job <ID> done''),
                                       (''variables'', JDict [(''ID'', JStr ''42'')])]),
                  EmbeddingLength 3],
        remote = \<lparr>chat_replies = [], embedding_replies = [],
                  embedding_inputs = [[''job <*> done'']]\<rparr>\<rparr>)"
    using tb by (simp add: print_def get_embedding_scripted normalize_job)
  from a1 a2 ca b1 b2 cb show ?thesis by blast
qed

text \<open>
  C2, the specified behaviour refuted: for a response that does not decode, the sentinel
  record (which carries the decode error) has the key \<^verbatim>\<open>template\<close>, so the embedding of
  \<^verbatim>\<open><*>\<close> is requested and its length printed.
\<close>

theorem sentinel_record_embedded:
  "main_body scripted_client sample_loads ''disk full''
       (start [reply apology_raw] [vectors [[3, 1, 4]]]) =
     (Inr (),
      \<lparr>stdout = [Processing ''disk full'', RawModelOutput apology_text,
                 ParsedResult (JDict [(''template'', JStr ''<PARSE_ERROR>''),
                                      (''variables'', JDict []),
                                      (''error'', JStr ''Expecting value: line 1 column 1 (char 0)'')]),
                 EmbeddingLength 3],
       remote = \<lparr>chat_replies = [], embedding_replies = [], embedding_inputs = [[''<*>'']]\<rparr>\<rparr>)"
  by (simp add: start_def main_body_scripted_apology)

text \<open>
  C3 (as the code has it): the call of the completion service is outside the \<^verbatim>\<open>try\<close> of
  both extractors, so an exception raised by that call (timeout, network, authentication or
  rate-limit failure) is not turned into the sentinel record: the extractor raises that
  same exception, after the service's effect on the world and with nothing else done.
\<close>

theorem completion_failure_propagates:
  "(chat_completions_create client ''gpt-4'' 0 [(''user'', zero_shot_prompt log_line)] (remote s)
      = (Inl e, w) \<longrightarrow>
    extract_template_and_variables client loads log_line s = (Inl e, s\<lparr>remote := w\<rparr>)) \<and>
   (chat_completions_create client ''gpt-4'' 0 [(''user'', few_shot_prompt log_line ex)] (remote s)
      = (Inl e, w) \<longrightarrow>
    extract_template_and_variables_fewshot client loads log_line ex s = (Inl e, s\<lparr>remote := w\<rparr>))"
  by (simp add: extract_zero_raise extract_few_raise)

theorem completion_failure_propagates_witness:
  "chat_completions_create scripted_client ''gpt-4'' 0 [(''user'', zero_shot_prompt ''disk full'')]
       (remote (start [Inl (OpenAIError ''Request timed out.'')] [])) =
     (Inl (OpenAIError ''Request timed out.''), remote (start [] [])) \<and>
   extract_template_and_variables scripted_client sample_loads ''disk full''
       (start [Inl (OpenAIError ''Request timed out.'')] []) =
     (Inl (OpenAIError ''Request timed out.''), start [] []) \<and>
   chat_completions_create scripted_client ''gpt-4'' 0
       [(''user'', few_shot_prompt ''disk full'' FEW_SHOT_EXAMPLES)]
       (remote (start [Inl (OpenAIError ''Request timed out.'')] [])) =
     (Inl (OpenAIError ''Request timed out.''), remote (start [] [])) \<and>
   extract_template_and_variables_fewshot scripted_client sample_loads ''disk full''
       FEW_SHOT_EXAMPLES (start [Inl (OpenAIError ''Request timed out.'')] []) =
     (Inl (OpenAIError ''Request timed out.''), start [] [])"
  using completion_failure_propagates[where client = scripted_client and loads = sample_loads
      and log_line = "''disk full''" and s = "start [Inl (OpenAIError ''Request timed out.'')] []"
      and w = "remote (start [] [])" and ex = FEW_SHOT_EXAMPLES
      and e = "OpenAIError ''Request timed out.''"]
  by (simp add: scripted_chat_raise)

text \<open>
  C3, the specified behaviour refuted: when the completion call times out, the zero-shot
  extractor does not return a record, it raises the service's exception.
\<close>

theorem completion_failure_raises:
  "fst (extract_template_and_variables scripted_client sample_loads ''disk full''
          (start [Inl (OpenAIError ''Request timed out.'')] [])) =
     Inl (OpenAIError ''Request timed out.'')"
  by (simp add: extract_template_and_variables_def scripted_chat_raise)

text \<open>
  C4 (as the code has it): a run of the loop that ends without an exception has started
  on every line, in input order, and has printed one parsed result per line, each behind
  the line it belongs to. When the lines \<open>pre\<close> have been processed and the next line \<open>l\<close>
  raises (in the extraction or in the embedding), the loop over \<open>pre @ l # rest\<close> raises that
  exception in the state \<open>l\<close> left: the lines started are \<open>pre @ [l]\<close>, none of \<open>rest\<close>. Every
  run that raises is of that form.
\<close>

theorem batch_results:
  "(main_loop client loads ls s = (Inr (), s') \<longrightarrow>
      (\<exists>evs. stdout s' = stdout s @ evs \<and> processed evs = ls \<and>
             map fst (line_results evs) = ls \<and> length (parsed_results evs) = length ls)) \<and>
   (main_loop client loads pre s = (Inr (), s1) \<and> main_body client loads l s1 = (Inl e, s2) \<longrightarrow>
      main_loop client loads (pre @ l # rest) s = (Inl e, s2) \<and>
      (\<exists>evs. stdout s2 = stdout s @ evs \<and> processed evs = pre @ [l])) \<and>
   (main_loop client loads ls s = (Inl e', s3) \<longrightarrow>
      (\<exists>pre l rest s1. ls = pre @ l # rest \<and> main_loop client loads pre s = (Inr (), s1) \<and>
          main_body client loads l s1 = (Inl e', s3)))"
  using main_loop_results[of client loads ls s s']
    main_loop_abort_at[of client loads pre s s1 l e s2 rest]
    main_loop_failed[of client loads ls s e' s3]
  by blast

theorem batch_results_witness:
  "(main_loop scripted_client sample_loads [''job 42 done'', ''disk full''] (start [reply two_field_text, reply apology_raw] [vectors [[3, 1, 4]], vectors [[1, 5]]]) = (Inr (), \<lparr>stdout = [Processing ''job 42 done'',
        RawModelOutput two_field_text,
        ParsedResult two_field_value,
        EmbeddingLength 3,
        Processing ''disk full'',
        RawModelOutput apology_text,
        ParsedResult (JDict [(''template'', JStr ''<PARSE_ERROR>''), (''variables'', JDict []), (''error'', JStr ''Expecting value: line 1 column 1 (char 0)'')]),
        EmbeddingLength 2],
      remote = \<lparr>chat_replies = [],
        embedding_replies = [], embedding_inputs = [[''job <*> done''], [''<*>'']]\<rparr>\<rparr>) \<and>
     (\<exists>evs. stdout (\<lparr>stdout = [Processing ''job 42 done'',
        RawModelOutput two_field_text,
        ParsedResult two_field_value,
        EmbeddingLength 3,
        Processing ''disk full'',
        RawModelOutput apology_text,
        ParsedResult (JDict [(''template'', JStr ''<PARSE_ERROR>''), (''variables'', JDict []), (''error'', JStr ''Expecting value: line 1 column 1 (char 0)'')]),
        EmbeddingLength 2],
      remote = \<lparr>chat_replies = [],
        embedding_replies = [], embedding_inputs = [[''job <*> done''], [''<*>'']]\<rparr>\<rparr>) = stdout (start [reply two_field_text, reply apology_raw] [vectors [[3, 1, 4]], vectors [[1, 5]]]) @ evs \<and>
     processed evs = [''job 42 done'', ''disk full''] \<and>
     map fst (line_results evs) = [''job 42 done'', ''disk full''] \<and>
     length (parsed_results evs) = length [''job 42 done'', ''disk full''])) \<and>
   (main_loop scripted_client sample_loads [''job 42 done''] (start [reply two_field_text, Inl (OpenAIError ''Request timed out.''), reply two_field_text] [vectors [[3, 1, 4]], vectors [[1, 5]]]) = (Inr (), \<lparr>stdout = [Processing ''job 42 done'',
        RawModelOutput two_field_text,
        ParsedResult two_field_value,
        EmbeddingLength 3],
      remote = \<lparr>chat_replies = [Inl (OpenAIError ''Request timed out.''), reply two_field_text],
        embedding_replies = [vectors [[1, 5]]], embedding_inputs = [[''job <*> done'']]\<rparr>\<rparr>) \<and>
     main_body scripted_client sample_loads ''job 43 done'' (\<lparr>stdout = [Processing ''job 42 done'',
        RawModelOutput two_field_text,
        ParsedResult two_field_value,
        EmbeddingLength 3],
      remote = \<lparr>chat_replies = [Inl (OpenAIError ''Request timed out.''), reply two_field_text],
        embedding_replies = [vectors [[1, 5]]], embedding_inputs = [[''job <*> done'']]\<rparr>\<rparr>) = (Inl (OpenAIError ''Request timed out.''), \<lparr>stdout = [Processing ''job 42 done'',
        RawModelOutput two_field_text,
        ParsedResult two_field_value,
        EmbeddingLength 3,
        Processing ''job 43 done''],
      remote = \<lparr>chat_replies = [reply two_field_text],
        embedding_replies = [vectors [[1, 5]]], embedding_inputs = [[''job <*> done'']]\<rparr>\<rparr>) \<and>
     main_loop scripted_client sample_loads ([''job 42 done''] @ ''job 43 done'' # [''job 44 done'']) (start [reply two_field_text, Inl (OpenAIError ''Request timed out.''), reply two_field_text] [vectors [[3, 1, 4]], vectors [[1, 5]]]) = (Inl (OpenAIError ''Request timed out.''), \<lparr>stdout = [Processing ''job 42 done'',
        RawModelOutput two_field_text,
        ParsedResult two_field_value,
        EmbeddingLength 3,
        Processing ''job 43 done''],
      remote = \<lparr>chat_replies = [reply two_field_text],
        embedding_replies = [vectors [[1, 5]]], embedding_inputs = [[''job <*> done'']]\<rparr>\<rparr>) \<and>
     (\<exists>evs. stdout (\<lparr>stdout = [Processing ''job 42 done'',
        RawModelOutput two_field_text,
        ParsedResult two_field_value,
        EmbeddingLength 3,
        Processing ''job 43 done''],
      remote = \<lparr>chat_replies = [reply two_field_text],
        embedding_replies = [vectors [[1, 5]]], embedding_inputs = [[''job <*> done'']]\<rparr>\<rparr>) = stdout (start [reply two_field_text, Inl (OpenAIError ''Request timed out.''), reply two_field_text] [vectors [[3, 1, 4]], vectors [[1, 5]]]) @ evs \<and>
     processed evs = [''job 42 done''] @ [''job 43 done''])) \<and>
   (main_loop scripted_client sample_loads [''job 42 done'', ''job 43 done'', ''job 44 done''] (start [reply two_field_text, Inl (OpenAIError ''Request timed out.''), reply two_field_text] [vectors [[3, 1, 4]], vectors [[1, 5]]]) = (Inl (OpenAIError ''Request timed out.''), \<lparr>stdout = [Processing ''job 42 done'',
        RawModelOutput two_field_text,
        ParsedResult two_field_value,
        EmbeddingLength 3,
        Processing ''job 43 done''],
      remote = \<lparr>chat_replies = [reply two_field_text],
        embedding_replies = [vectors [[1, 5]]], embedding_inputs = [[''job <*> done'']]\<rparr>\<rparr>) \<and>
     (\<exists>pre l rest s1. [''job 42 done'', ''job 43 done'', ''job 44 done''] = pre @ l # rest \<and>
     main_loop scripted_client sample_loads pre (start [reply two_field_text, Inl (OpenAIError ''Request timed out.''), reply two_field_text] [vectors [[3, 1, 4]], vectors [[1, 5]]]) = (Inr (), s1) \<and>
     main_body scripted_client sample_loads l s1 = (Inl (OpenAIError ''Request timed out.''), \<lparr>stdout = [Processing ''job 42 done'',
        RawModelOutput two_field_text,
        ParsedResult two_field_value,
        EmbeddingLength 3,
        Processing ''job 43 done''],
      remote = \<lparr>chat_replies = [reply two_field_text],
        embedding_replies = [vectors [[1, 5]]], embedding_inputs = [[''job <*> done'']]\<rparr>\<rparr>)))"
proof -
  have run: "main_loop scripted_client sample_loads [''job 42 done'', ''disk full''] (start [reply two_field_text, reply apology_raw] [vectors [[3, 1, 4]], vectors [[1, 5]]]) = (Inr (), \<lparr>stdout = [Processing ''job 42 done'',
        RawModelOutput two_field_text,
        ParsedResult two_field_value,
        EmbeddingLength 3,
        Processing ''disk full'',
        RawModelOutput apology_text,
        ParsedResult (JDict [(''template'', JStr ''<PARSE_ERROR>''), (''variables'', JDict []), (''error'', JStr ''Expecting value: line 1 column 1 (char 0)'')]),
        EmbeddingLength 2],
      remote = \<lparr>chat_replies = [],
        embedding_replies = [], embedding_inputs = [[''job <*> done''], [''<*>'']]\<rparr>\<rparr>)"
    by (simp add: start_def main_body_scripted_two_field main_body_scripted_apology)
  have pre: "main_loop scripted_client sample_loads [''job 42 done''] (start [reply two_field_text, Inl (OpenAIError ''Request timed out.''), reply two_field_text] [vectors [[3, 1, 4]], vectors [[1, 5]]]) = (Inr (), \<lparr>stdout = [Processing ''job 42 done'',
        RawModelOutput two_field_text,
        ParsedResult two_field_value,
        EmbeddingLength 3],
      remote = \<lparr>chat_replies = [Inl (OpenAIError ''Request timed out.''), reply two_field_text],
        embedding_replies = [vectors [[1, 5]]], embedding_inputs = [[''job <*> done'']]\<rparr>\<rparr>)"
    by (simp add: start_def main_body_scripted_two_field)
  have stop: "main_body scripted_client sample_loads ''job 43 done'' (\<lparr>stdout = [Processing ''job 42 done'',
        RawModelOutput two_field_text,
        ParsedResult two_field_value,
        EmbeddingLength 3],
      remote = \<lparr>chat_replies = [Inl (OpenAIError ''Request timed out.''), reply two_field_text],
        embedding_replies = [vectors [[1, 5]]], embedding_inputs = [[''job <*> done'']]\<rparr>\<rparr>) = (Inl (OpenAIError ''Request timed out.''), \<lparr>stdout = [Processing ''job 42 done'',
        RawModelOutput two_field_text,
        ParsedResult two_field_value,
        EmbeddingLength 3,
        Processing ''job 43 done''],
      remote = \<lparr>chat_replies = [reply two_field_text],
        embedding_replies = [vectors [[1, 5]]], embedding_inputs = [[''job <*> done'']]\<rparr>\<rparr>)"
    by (simp add: main_body_scripted_chat_raise)
  note ta = batch_results[where client = scripted_client and loads = sample_loads,
      THEN conjunct1, rule_format, OF run]
  note tb = batch_results[where client = scripted_client and loads = sample_loads
      and rest = "[''job 44 done'']", THEN conjunct2, THEN conjunct1, rule_format,
      OF conjI[OF pre stop]]
  from tb have fail: "main_loop scripted_client sample_loads [''job 42 done'', ''job 43 done'', ''job 44 done''] (start [reply two_field_text, Inl (OpenAIError ''Request timed out.''), reply two_field_text] [vectors [[3, 1, 4]], vectors [[1, 5]]]) = (Inl (OpenAIError ''Request timed out.''), \<lparr>stdout = [Processing ''job 42 done'',
        RawModelOutput two_field_text,
        ParsedResult two_field_value,
        EmbeddingLength 3,
        Processing ''job 43 done''],
      remote = \<lparr>chat_replies = [reply two_field_text],
        embedding_replies = [vectors [[1, 5]]], embedding_inputs = [[''job <*> done'']]\<rparr>\<rparr>)"
    by simp
  note tc = batch_results[where client = scripted_client and loads = sample_loads,
      THEN conjunct2, THEN conjunct2, rule_format, OF fail]
  from tb have ab1: "main_loop scripted_client sample_loads ([''job 42 done''] @ ''job 43 done'' # [''job 44 done'']) (start [reply two_field_text, Inl (OpenAIError ''Request timed out.''), reply two_field_text] [vectors [[3, 1, 4]], vectors [[1, 5]]]) = (Inl (OpenAIError ''Request timed out.''), \<lparr>stdout = [Processing ''job 42 done'',
        RawModelOutput two_field_text,
        ParsedResult two_field_value,
        EmbeddingLength 3,
        Processing ''job 43 done''],
      remote = \<lparr>chat_replies = [reply two_field_text],
        embedding_replies = [vectors [[1, 5]]], embedding_inputs = [[''job <*> done'']]\<rparr>\<rparr>)"
    by (rule conjunct1)
  from tb have ab2: "(\<exists>evs. stdout (\<lparr>stdout = [Processing ''job 42 done'',
        RawModelOutput two_field_text,
        ParsedResult two_field_value,
        EmbeddingLength 3,
        Processing ''job 43 done''],
      remote = \<lparr>chat_replies = [reply two_field_text],
        embedding_replies = [vectors [[1, 5]]], embedding_inputs = [[''job <*> done'']]\<rparr>\<rparr>) = stdout (start [reply two_field_text, Inl (OpenAIError ''Request timed out.''), reply two_field_text] [vectors [[3, 1, 4]], vectors [[1, 5]]]) @ evs \<and>
     processed evs = [''job 42 done''] @ [''job 43 done''])"
    by (rule conjunct2)
  show ?thesis
    by (intro conjI) (fact run ta pre stop ab1 ab2 fail tc)+
qed

text \<open>
  C4, the specified behaviour refuted: with two lines, when the embedding service fails on
  the first one the loop raises that failure; the second line is never started and the replies
  meant for it are left unused.
\<close>

theorem batch_aborted:
  "main_loop scripted_client sample_loads [''job 42 done'', ''job 43 done'']
       (start [reply two_field_text, reply two_field_text]
              [Inl (OpenAIError ''Rate limit reached.''), vectors [[3, 1, 4]]]) =
     (Inl (OpenAIError ''Rate limit reached.''),
      \<lparr>stdout = [Processing ''job 42 done'', RawModelOutput two_field_text,
                 ParsedResult two_field_value],
       remote = \<lparr>chat_replies = [reply two_field_text], embedding_replies = [vectors [[3, 1, 4]]],
                 embedding_inputs = [[''job <*> done'']]\<rparr>\<rparr>)"
  by (simp add: start_def main_body_scripted_two_field_raise)

text \<open>
  C5 (as the code has it): when the stripped response text decodes, both extractors return
  the decoded value itself, unchanged: no field is selected, dropped or defaulted.
\<close>

theorem decoded_value_unchanged:
  assumes "choices response = c # cs" and "content (message c) = Some raw"
    and "loads (strip raw) = Inr v"
  shows "(chat_completions_create client ''gpt-4'' 0 [(''user'', zero_shot_prompt log_line)] (remote s)
            = (Inr response, w) \<longrightarrow>
          extract_template_and_variables client loads log_line s = (Inr v, s\<lparr>remote := w\<rparr>)) \<and>
         (chat_completions_create client ''gpt-4'' 0 [(''user'', few_shot_prompt log_line ex)] (remote s)
            = (Inr response, w) \<longrightarrow>
          extract_template_and_variables_fewshot client loads log_line ex s =
            (Inr v, print (RawModelOutput (strip raw)) (s\<lparr>remote := w\<rparr>)))"
  using assms by (simp add: extract_zero_decoded extract_few_decoded)

theorem decoded_value_unchanged_witness:
  "choices (response_with unknown_field_text) =
     [\<lparr>message = \<lparr>content = Some unknown_field_text\<rparr>\<rparr>] \<and>
   content (message \<lparr>message = \<lparr>content = Some unknown_field_text\<rparr>\<rparr>) = Some unknown_field_text \<and>
   sample_loads (strip unknown_field_text) = Inr unknown_field_value \<and>
   chat_completions_create scripted_client ''gpt-4'' 0 [(''user'', zero_shot_prompt ''job 42 done'')]
       (remote (start [reply unknown_field_text] [])) =
     (Inr (response_with unknown_field_text), remote (start [] [])) \<and>
   extract_template_and_variables scripted_client sample_loads ''job 42 done''
       (start [reply unknown_field_text] []) =
     (Inr unknown_field_value, start [] []) \<and>
   chat_completions_create scripted_client ''gpt-4'' 0
       [(''user'', few_shot_prompt ''job 42 done'' FEW_SHOT_EXAMPLES)]
       (remote (start [reply unknown_field_text] [])) =
     (Inr (response_with unknown_field_text), remote (start [] [])) \<and>
   extract_template_and_variables_fewshot scripted_client sample_loads ''job 42 done''
       FEW_SHOT_EXAMPLES (start [reply unknown_field_text] []) =
     (Inr unknown_field_value, print (RawModelOutput unknown_field_text) (start [] []))"
proof -
  have h1: "choices (response_with unknown_field_text) =
      \<lparr>message = \<lparr>content = Some unknown_field_text\<rparr>\<rparr> # []"
    by (rule choices_response_with)
  have h2: "content (message \<lparr>message = \<lparr>content = Some unknown_field_text\<rparr>\<rparr>) =
      Some unknown_field_text"
    by simp
  have h3: "sample_loads (strip unknown_field_text) = Inr unknown_field_value"
    by (simp only: strip_unknown_field sample_loads_unknown_field)
  note t = decoded_value_unchanged[where loads = sample_loads and client = scripted_client
      and log_line = "''job 42 done''" and s = "start [reply unknown_field_text] []"
      and w = "remote (start [] [])" and ex = FEW_SHOT_EXAMPLES, OF h1 h2 h3]
  from t h1 h2 h3 show ?thesis
    by (simp add: scripted_chat_reply strip_unknown_field)
qed

text \<open>
  C5, the specified behaviour refuted: for a response with the unknown field
  \<^verbatim>\<open>confidence\<close> and no \<^verbatim>\<open>variables\<close>, the returned mapping still holds \<^verbatim>\<open>confidence\<close> and
  has no \<^verbatim>\<open>variables\<close> entry.
\<close>

theorem unknown_field_kept:
  "fst (extract_template_and_variables scripted_client sample_loads ''job 42 done''
          (start [reply unknown_field_text] [])) =
     Inr (JDict [(''template'', JStr ''job <ID> done''), (''confidence'', JInt 1)])"
  by (simp add: extract_template_and_variables_def scripted_chat_reply choices_response_with
      strip_unknown_field sample_loads_unknown_field unknown_field_value_def)



text \<open>
  C7: \<^verbatim>\<open>normalize_template\<close> trims the template and then replaces every placeholder, a
  \<^verbatim>\<open><\<close> followed by one or more characters other than \<^verbatim>\<open>>\<close> and a closing \<^verbatim>\<open>>\<close>, by
  \<^verbatim>\<open><*>\<close>, scanning from the left (the function \<open>Normalize\<close> written from that description);
  a template whose trimmed form holds no placeholder is returned trimmed and otherwise unchanged.
\<close>

theorem normalize_template_as_specified:
  "normalize_template t = Normalize t \<and>
   (\<not> has_placeholder (strip t) \<longrightarrow> normalize_template t = strip t)"
  by (simp add: normalize_template_def Normalize_def re_sub_collapse collapse_no_placeholder)

theorem normalize_template_as_specified_witness:
  "\<not> has_placeholder (strip ''  user root logged in <>  '') \<and>
   normalize_template ''  user root logged in <>  '' = ''user root logged in <>''"
proof -
  have s: "strip ''  user root logged in <>  '' = ''user root logged in <>''"
    by code_simp
  have h: "\<not> has_placeholder (strip ''  user root logged in <>  '')"
    by code_simp
  have "\<not> has_placeholder (strip ''  user root logged in <>  '') \<longrightarrow>
        normalize_template ''  user root logged in <>  '' = strip ''  user root logged in <>  ''"
    using normalize_template_as_specified[of "''  user root logged in <>  ''"] by (rule conjunct2)
  with h s show ?thesis by simp
qed

text \<open>
  C8: normalisation is idempotent: normalising a normalised template gives it back.
\<close>

theorem normalize_template_idempotent:
  "normalize_template (normalize_template t) = normalize_template t"
  by (simp add: normalize_template_def re_sub_collapse strip_collapse collapse_idem)

text \<open>
  C9: \<^verbatim>\<open>get_embedding\<close> calls the embedding service once, with the model
  \<^verbatim>\<open>text-embedding-3-small\<close> and the one-item batch \<^verbatim>\<open>[text]\<close>. It returns the vector of the
  first datum of the response as it is; an exception of the service is raised to the
  caller unchanged; a response with no datum raises \<^verbatim>\<open>IndexError\<close> to the caller. In
  each case the only effect is the service's own.
\<close>

theorem get_embedding_single_item:
  "(embeddings_create client ''text-embedding-3-small'' [t] (remote s) = (Inr response, w) \<and>
      data response = d # ds \<longrightarrow>
    get_embedding client t s = (Inr (embedding d), s\<lparr>remote := w\<rparr>)) \<and>
   (embeddings_create client ''text-embedding-3-small'' [t] (remote s) = (Inl e, w) \<longrightarrow>
    get_embedding client t s = (Inl e, s\<lparr>remote := w\<rparr>)) \<and>
   (embeddings_create client ''text-embedding-3-small'' [t] (remote s) = (Inr response, w) \<and>
      data response = [] \<longrightarrow>
    get_embedding client t s = (Inl IndexError, s\<lparr>remote := w\<rparr>))"
  by (simp add: get_embedding_def)

theorem get_embedding_single_item_witness:
  "(embeddings_create scripted_client ''text-embedding-3-small'' [''job <*> done'']
        (remote (start [] [vectors [[3, 1, 4]]])) =
      (Inr \<lparr>data = [\<lparr>embedding = [3, 1, 4]\<rparr>]\<rparr>,
       \<lparr>chat_replies = [], embedding_replies = [], embedding_inputs = [[''job <*> done'']]\<rparr>) \<and>
    data \<lparr>data = [\<lparr>embedding = [3, 1, 4 :: int]\<rparr>]\<rparr> = [\<lparr>embedding = [3, 1, 4]\<rparr>] \<and>
    get_embedding scripted_client ''job <*> done'' (start [] [vectors [[3, 1, 4]]]) =
      (Inr [3, 1, 4],
       \<lparr>stdout = [],
        remote = \<lparr>chat_replies = [], embedding_replies = [],
                  embedding_inputs = [[''job <*> done'']]\<rparr>\<rparr>)) \<and>
   (embeddings_create scripted_client ''text-embedding-3-small'' [''job <*> done'']
        (remote (start [] [Inl (OpenAIError ''Rate limit reached.'')])) =
      (Inl (OpenAIError ''Rate limit reached.''),
       \<lparr>chat_replies = [], embedding_replies = [], embedding_inputs = [[''job <*> done'']]\<rparr>) \<and>
    get_embedding scripted_client ''job <*> done''
        (start [] [Inl (OpenAIError ''Rate limit reached.'')]) =
      (Inl (OpenAIError ''Rate limit reached.''),
       \<lparr>stdout = [],
        remote = \<lparr>chat_replies = [], embedding_replies = [],
                  embedding_inputs = [[''job <*> done'']]\<rparr>\<rparr>)) \<and>
   (embeddings_create scripted_client ''text-embedding-3-small'' [''job <*> done'']
        (remote (start [] [vectors []])) =
      (Inr \<lparr>data = []\<rparr>,
       \<lparr>chat_replies = [], embedding_replies = [], embedding_inputs = [[''job <*> done'']]\<rparr>) \<and>
    data \<lparr>data = ([] :: int embedding_item list)\<rparr> = [] \<and>
    get_embedding scripted_client ''job <*> done'' (start [] [vectors []]) =
      (Inl IndexError,
       \<lparr>stdout = [],
        remote = \<lparr>chat_replies = [], embedding_replies = [],
                  embedding_inputs = [[''job <*> done'']]\<rparr>\<rparr>))"
proof -
  note a = get_embedding_single_item[where client = scripted_client and t = "''job <*> done''"
      and s = "start [] [vectors [[3, 1, 4]]]" and response = "\<lparr>data = [\<lparr>embedding = [3, 1, 4]\<rparr>]\<rparr>"
      and w = "\<lparr>chat_replies = [], embedding_replies = [], embedding_inputs = [[''job <*> done'']]\<rparr>"
      and d = "\<lparr>embedding = [3, 1, 4]\<rparr>" and ds = "[]", THEN conjunct1]
  note b = get_embedding_single_item[where client = scripted_client and t = "''job <*> done''"
      and s = "start [] [Inl (OpenAIError ''Rate limit reached.'')]"
      and e = "OpenAIError ''Rate limit reached.''"
      and w = "\<lparr>chat_replies = [], embedding_replies = [], embedding_inputs = [[''job <*> done'']]\<rparr>",
      THEN conjunct2, THEN conjunct1]
  note c = get_embedding_single_item[where client = scripted_client and t = "''job <*> done''"
      and s = "start [] [vectors []]" and response = "\<lparr>data = []\<rparr>"
      and w = "\<lparr>chat_replies = [], embedding_replies = [], embedding_inputs = [[''job <*> done'']]\<rparr>",
      THEN conjunct2, THEN conjunct2]
  from a b c show ?thesis
    by (simp add: scripted_embeddings data_vectors start_def)
qed



end
